theory Spec2Isabelle
  imports Main
begin

section \<open>Data model\<close>

text \<open>
  The tables the two routers read and write, one record per row type. Column names
  carry a short prefix of their table, since several tables share column names
  (\<open>id\<close>, \<open>game_mode\<close>, \<open>beatmapset_id\<close>). Ids and game modes are natural numbers,
  scores and order values are integers, nullable columns are options.
\<close>

datatype DescriptionState = notReviewed | reviewed

datatype MetadataState = uncheckedState | needsChange | good

record Nomination =
  nom_id :: nat
  nom_beatmapset_id :: nat
  nom_description :: "string option"
  nom_description_author_id :: "nat option"
  nom_description_state :: DescriptionState
  nom_game_mode :: nat
  nom_metadata_state :: MetadataState
  nom_moderator_state :: nat
  nom_order :: int
  nom_overwrite_artist :: "string option"
  nom_overwrite_title :: "string option"
  nom_parent_id :: "nat option"
  nom_round_id :: nat

record NominationNominator =
  nn_nomination_id :: nat
  nn_nominator_id :: nat

record NominationAssignee =
  na_assignee_id :: nat
  na_nomination_id :: nat
  na_type :: nat

record NominationExcludedBeatmap =
  ne_beatmap_id :: nat
  ne_nomination_id :: nat

record BeatmapsetCreator =
  bc_beatmapset_id :: nat
  bc_creator_id :: nat
  bc_game_mode :: nat

record Beatmapset =
  bs_id :: nat
  bs_ranked_status :: int
  bs_game_modes :: "nat set"

record User =
  user_id :: nat
  user_name :: string

record Round =
  round_id :: nat
  round_name :: string
  round_done :: bool

record RoundGameMode =
  rgm_round_id :: nat
  rgm_game_mode :: nat
  rgm_voting_threshold :: int
  rgm_nominations_locked :: bool

datatype ConsentValue = no | yes | unreachable

record Consent =
  mc_user_id :: nat
  mc_consent :: "ConsentValue option"
  mc_consent_reason :: "string option"
  mc_updated_at :: nat
  mc_updater_id :: nat

record ConsentBeatmapset =
  mcb_beatmapset_id :: nat
  mcb_user_id :: nat
  mcb_consent :: bool
  mcb_consent_reason :: "string option"

record Review =
  rev_id :: nat
  rev_beatmapset_id :: nat
  rev_game_mode :: nat
  rev_reason :: string
  rev_reviewed_at :: nat
  rev_reviewer_id :: nat
  rev_score :: int

record Submission =
  sub_id :: nat
  sub_beatmapset_id :: nat
  sub_game_mode :: nat
  sub_reason :: "string option"
  sub_submitter_id :: nat

text \<open>
  Audit records written by \<open>dbLog\<close>, one constructor per log type, with the values
  logged: users and beatmapsets by id, reviews and submissions as the rows they were.
\<close>

datatype Log =
    mapperConsentCreated nat nat "ConsentValue option" "string option"
  | mapperConsentUpdated nat nat "ConsentValue option" "string option"
      "ConsentValue option" "string option"
  | mapperConsentBeatmapsetCreated nat nat nat bool "string option"
  | mapperConsentBeatmapsetUpdated nat nat nat bool "string option" bool "string option"
  | mapperConsentBeatmapsetDeleted nat nat nat bool "string option"
  | reviewCreated nat Review nat
  | reviewUpdated nat Review Review nat
  | submissionDeleted nat nat Submission nat

text \<open>Cache entries named to \<open>deleteCache\<close>.\<close>

datatype CacheKey =
    MapperConsents
  | SubmissionsMapperConsentBeatmapsets
  | SubmissionsMapperConsents
  | SubmissionsReviews nat

text \<open>
  What ran on the database connection, kept as a trace: the boundaries of every
  transaction and, between them, the four statements of the delete transaction. (The
  statements of the other handlers are modelled by what they do to the tables.)
\<close>

datatype Statement =
    BeginTransaction
  | Commit
  | Rollback
  | DeleteAssignees nat
  | DeleteExcludedBeatmaps nat
  | DeleteNominators nat
  | DeleteNominationRow nat

text \<open>Calls made to the content collaborator, kept as a trace.\<close>

datatype UserKey = ById nat | ByName string

datatype OsuCall = BeatmapsetCall nat bool | UserCall UserKey

record Db =
  nominations :: "Nomination list"
  nominations_auto_increment :: nat
  nomination_nominators :: "NominationNominator list"
  nomination_assignees :: "NominationAssignee list"
  nomination_excluded_beatmaps :: "NominationExcludedBeatmap list"
  beatmapset_creators :: "BeatmapsetCreator list"
  beatmapsets :: "Beatmapset list"
  users :: "User list"
  rounds :: "Round list"
  rounds_auto_increment :: nat
  round_game_modes :: "RoundGameMode list"
  mapper_consents :: "Consent list"
  mapper_consent_beatmapsets :: "ConsentBeatmapset list"
  reviews :: "Review list"
  reviews_auto_increment :: nat
  submissions :: "Submission list"
  logs :: "Log list"
  statements :: "Statement list"
  osu_calls :: "OsuCall list"
  deleted_caches :: "CacheKey list"

text \<open>
  Responses that end a handler early: the 422 answers with their text, the 404 answers
  with their text or the beatmapset they name, the 403 answers (their text, where they
  have one, is left out), and a value thrown inside a handler. A text that
  interpolates a game mode is given up to the number.
\<close>

datatype error =
    ValidationError string
  | NotFound string
  | BeatmapsetNotFound nat
  | Forbidden
  | Thrown string

text \<open>
  The result of \<open>authRoles(req, res)\<close>: the capabilities of the acting user, with the
  captain capability given per game mode.
\<close>

record AuthRoles =
  roles_news :: bool
  roles_metadata :: bool
  roles_moderator :: bool
  roles_god :: bool
  roles_gameModes :: "nat \<Rightarrow> bool"

section \<open>The content collaborator\<close>

text \<open>
  Modelled from the spec: the content collaborator \<open>res.typedLocals.osu\<close>, whose code is
  not part of the two routers. It is a parameter of every handler that calls it:
  \<open>createOrRefreshBeatmapset\<close> takes the cached beatmapsets, an id and the force flag
  and answers a beatmapset or nothing, with the cache as it leaves it;
  \<open>createOrRefreshUser\<close> does the same on the cached users, by id or by name.
\<close>

record Osu =
  createOrRefreshBeatmapset ::
    "Beatmapset list \<Rightarrow> nat \<Rightarrow> bool \<Rightarrow> Beatmapset option \<times> Beatmapset list"
  createOrRefreshUser :: "User list \<Rightarrow> UserKey \<Rightarrow> User option \<times> User list"

definition osu_beatmapset :: "Osu \<Rightarrow> nat \<Rightarrow> bool \<Rightarrow> Db \<Rightarrow> Beatmapset option \<times> Db" where
  "osu_beatmapset osu bid force db =
     (case createOrRefreshBeatmapset osu (beatmapsets db) bid force of
        (r, cache) \<Rightarrow>
          (r, db\<lparr>beatmapsets := cache,
                 osu_calls := osu_calls db @ [BeatmapsetCall bid force]\<rparr>))"

definition osu_user :: "Osu \<Rightarrow> UserKey \<Rightarrow> Db \<Rightarrow> User option \<times> Db" where
  "osu_user osu key db =
     (case createOrRefreshUser osu (users db) key of
        (r, cache) \<Rightarrow> (r, db\<lparr>users := cache, osu_calls := osu_calls db @ [UserCall key]\<rparr>))"

section \<open>Nomination description\<close>

record EditDescriptionBody =
  ed_nominationId :: nat
  ed_description :: "string option"

text \<open>
  \<open>POST /nomination-edit-description\<close>. The handler reads the nomination, checks the two
  permission conditions, and issues one UPDATE of description, author and state.
  The answer is the row read back.
\<close>

definition nomination_edit_description ::
  "AuthRoles \<Rightarrow> nat \<Rightarrow> EditDescriptionBody \<Rightarrow> Db \<Rightarrow> (error + Nomination option) \<times> Db" where
  "nomination_edit_description roles userId body db =
     (case find (\<lambda>n. nom_id n = ed_nominationId body) (nominations db) of
        None \<Rightarrow> (Inl (ValidationError ''Invalid nomination ID''), db)
      | Some existingNomination \<Rightarrow>
          (let prevDescription = nom_description existingNomination;
               prevAuthorId = nom_description_author_id existingNomination;
               prevState = nom_description_state existingNomination;
               gameMode = nom_game_mode existingNomination
           in if \<not> (prevState \<noteq> reviewed \<and> roles_gameModes roles gameMode) \<and>
                 \<not> (prevDescription \<noteq> None \<and> roles_news roles)
              then (Inl Forbidden, db)
              else if \<not> roles_gameModes roles gameMode \<and> ed_description body = None
              then (Inl Forbidden, db)
              else
                (let db' = db\<lparr>nominations :=
                       map (\<lambda>n. if nom_id n = ed_nominationId body
                                 then n\<lparr>nom_description := ed_description body,
                                        nom_description_author_id :=
                                          (if ed_description body = None then None
                                           else if prevDescription = None then Some userId
                                           else prevAuthorId),
                                        nom_description_state :=
                                          (if roles_news roles \<and> prevDescription \<noteq> None \<and>
                                              ed_description body \<noteq> None
                                           then reviewed else notReviewed)\<rparr>
                                 else n)
                           (nominations db)\<rparr>
                 in (Inr (find (\<lambda>n. nom_id n = ed_nominationId body) (nominations db')), db'))))"

section \<open>Transactions\<close>

text \<open>
  \<open>db.transact\<close> begins a transaction, runs its body on that one connection, and
  commits, or rolls back when the body throws. The three boundaries go to the trace of
  the connection. What the content collaborator did meanwhile went through its own
  connection, so a rollback keeps the collaborator's cache and the trace of its calls;
  the cache entries deleted from memory stay deleted, and the trace of what ran stays.
\<close>

definition begin_transaction :: "Db \<Rightarrow> Db" where
  "begin_transaction db = db\<lparr>statements := statements db @ [BeginTransaction]\<rparr>"

definition commit :: "Db \<Rightarrow> Db" where
  "commit db = db\<lparr>statements := statements db @ [Commit]\<rparr>"

definition rollback :: "Db \<Rightarrow> Db \<Rightarrow> Db" where
  "rollback before now =
     before\<lparr>beatmapsets := beatmapsets now, users := users now,
            statements := statements now @ [Rollback], osu_calls := osu_calls now,
            deleted_caches := deleted_caches now\<rparr>"

definition transact :: "(Db \<Rightarrow> (error + 'a) \<times> Db) \<Rightarrow> Db \<Rightarrow> (error + 'a) \<times> Db" where
  "transact body db =
     (case body (begin_transaction db) of
        (Inl e, db') \<Rightarrow> (Inl e, rollback db db')
      | (Inr r, db') \<Rightarrow> (Inr r, commit db'))"

text \<open>
  Column defaults come from the table declarations, which are not among the sources:
  an INSERT that sets some columns takes the others from the schema's default row.
\<close>

record Schema =
  default_nomination :: Nomination
  default_round :: Round
  default_round_game_mode :: RoundGameMode

section \<open>Nomination creation\<close>

text \<open>
  Modelled from the spec: the type guard \<open>isGameMode\<close> of \<open>type-guards\<close>, not among the
  sources; the supported game modes are 0 to 3, the ones \<open>/add-round\<close> loops over.
\<close>

definition isGameMode :: "nat \<Rightarrow> bool" where
  "isGameMode g = (g \<in> {0, 1, 2, 3})"

record NominationSubmitBody =
  ns_beatmapsetId :: nat
  ns_gameMode :: nat
  ns_parentId :: "nat option"
  ns_roundId :: nat

text \<open>
  \<open>POST /nomination-submit\<close>. The new row's \<open>order\<close> is the COUNT of the nominations of
  the round and game mode (\<open>nominationCount\<close>), read before the transaction; its id is the table's
  auto-increment value. The answer is the new row read back (the beatmaps, creators
  and nominators joined to it in the response are reads only).
\<close>

definition nominationCount :: "Db \<Rightarrow> nat \<Rightarrow> nat \<Rightarrow> nat" where
  "nominationCount db roundId gameMode =
     length (filter (\<lambda>n. nom_round_id n = roundId \<and> nom_game_mode n = gameMode)
               (nominations db))"

definition nomination_submit ::
  "Osu \<Rightarrow> Schema \<Rightarrow> nat \<Rightarrow> NominationSubmitBody \<Rightarrow> Db \<Rightarrow> (error + Nomination option) \<times> Db" where
  "nomination_submit osu schema userId body db =
     (if \<not> isGameMode (ns_gameMode body)
      then (Inl (ValidationError ''Invalid game mode''), db)
      else if ns_parentId body \<noteq> None \<and>
              find (\<lambda>n. Some (nom_id n) = ns_parentId body) (nominations db) = None
      then (Inl (ValidationError ''Invalid parent nomination ID''), db)
      else
        (case osu_beatmapset osu (ns_beatmapsetId body) False db of
           (None, db1) \<Rightarrow> (Inl (ValidationError ''Invalid beatmapset ID''), db1)
         | (Some beatmapset, db1) \<Rightarrow>
             if ns_gameMode body \<notin> bs_game_modes beatmapset
             then (Inl (ValidationError ''Beatmapset has no beatmaps in game mode ''), db1)
             else if find (\<lambda>n. nom_round_id n = ns_roundId body \<and>
                                 nom_game_mode n = ns_gameMode body \<and>
                                 nom_beatmapset_id n = bs_id beatmapset) (nominations db1) \<noteq> None
             then (Inl (ValidationError
                         ''Duplicate nomination. Refresh the page if you don't see it''), db1)
             else
               (let count = nominationCount db1 (ns_roundId body) (ns_gameMode body)
                in transact (\<lambda>c.
                     (let nominationId = nominations_auto_increment c;
                          c1 = c\<lparr>nominations := nominations c @
                                   [(default_nomination schema)
                                      \<lparr>nom_id := nominationId,
                                       nom_beatmapset_id := bs_id beatmapset,
                                       nom_game_mode := ns_gameMode body,
                                       nom_order := int count,
                                       nom_parent_id := ns_parentId body,
                                       nom_round_id := ns_roundId body\<rparr>],
                                 nominations_auto_increment := Suc nominationId\<rparr>;
                          c2 = c1\<lparr>nomination_nominators := nomination_nominators c1 @
                                   [\<lparr>nn_nomination_id = nominationId,
                                     nn_nominator_id = userId\<rparr>]\<rparr>
                      in (Inr (find (\<lambda>n. nom_id n = nominationId) (nominations c2)), c2)))
                   db1)))"

section \<open>Nomination metadata\<close>

text \<open>
  The \<open>creators\<close> field of the request: missing, present but not an array of strings,
  or an array of strings. \<open>isStringArray\<close> holds of the last form only.
\<close>

datatype CreatorsField = Absent | NotStringArray | StringArray "string list"

fun isStringArray :: "CreatorsField \<Rightarrow> bool" where
  "isStringArray (StringArray _) = True"
| "isStringArray _ = False"

fun creator_names :: "CreatorsField \<Rightarrow> string list" where
  "creator_names (StringArray names) = names"
| "creator_names _ = []"

record EditMetadataBody =
  em_nominationId :: nat
  em_state :: MetadataState
  em_artist :: "string option"
  em_title :: "string option"
  em_creators :: CreatorsField

text \<open>The loop that resolves every creator name, pushing each answer.\<close>

fun resolve_creators :: "Osu \<Rightarrow> string list \<Rightarrow> Db \<Rightarrow> User option list \<times> Db" where
  "resolve_creators osu [] db = ([], db)"
| "resolve_creators osu (creatorName # rest) db =
     (case osu_user osu (ByName creatorName) db of
        (u, db1) \<Rightarrow>
          (case resolve_creators osu rest db1 of (us, db2) \<Rightarrow> (u # us, db2)))"

text \<open>
  \<open>creators.map((user) => [..., user.id, ...])\<close> reads \<open>id\<close> of every pushed answer and
  throws a TypeError at the first one that is null.
\<close>

fun creator_rows :: "nat \<Rightarrow> nat \<Rightarrow> User option list \<Rightarrow> error + BeatmapsetCreator list" where
  "creator_rows bid gm [] = Inr []"
| "creator_rows bid gm (None # us) = Inl (Thrown ''TypeError'')"
| "creator_rows bid gm (Some u # us) =
     (case creator_rows bid gm us of
        Inl e \<Rightarrow> Inl e
      | Inr rows \<Rightarrow>
          Inr (\<lparr>bc_beatmapset_id = bid, bc_creator_id = user_id u, bc_game_mode = gm\<rparr> # rows))"

text \<open>
  The first step of the transaction, taken by metadata checkers only: the UPDATE of
  state and overwrites, after a forced refresh when a \<open>needsChange\<close> nomination
  turns \<open>good\<close>.
\<close>

definition metadata_update :: "Osu \<Rightarrow> AuthRoles \<Rightarrow> EditMetadataBody \<Rightarrow> Nomination \<Rightarrow> Db \<Rightarrow> Db" where
  "metadata_update osu roles body nomination c =
     (if roles_metadata roles
      then
        (let artist = (if em_state body = good then None else em_artist body);
             title = (if em_state body = good then None else em_title body);
             c1 = (if em_state body = good \<and> nom_metadata_state nomination = needsChange
                   then snd (osu_beatmapset osu (nom_beatmapset_id nomination) True c)
                   else c)
         in c1\<lparr>nominations :=
                 map (\<lambda>n. if nom_id n = em_nominationId body
                           then n\<lparr>nom_metadata_state := em_state body,
                                  nom_overwrite_artist := artist,
                                  nom_overwrite_title := title\<rparr>
                           else n)
                     (nominations c1)\<rparr>)
      else c)"

text \<open>
  \<open>Object.assign(nomination, row)\<close>: the nomination joined to its beatmapset replaces
  the fields read before the transaction; a null row assigns nothing.
\<close>

definition reread_nomination :: "nat \<Rightarrow> Nomination \<Rightarrow> Db \<Rightarrow> Nomination" where
  "reread_nomination nominationId nomination c =
     (case find (\<lambda>n. nom_id n = nominationId \<and>
                     find (\<lambda>b. bs_id b = nom_beatmapset_id n) (beatmapsets c) \<noteq> None)
                (nominations c) of
        None \<Rightarrow> nomination
      | Some row \<Rightarrow> row)"

text \<open>
  \<open>POST /nomination-edit-metadata\<close>. The answer is the nomination with the creators
  that were resolved.
\<close>

definition nomination_edit_metadata ::
  "Osu \<Rightarrow> AuthRoles \<Rightarrow> EditMetadataBody \<Rightarrow> Db \<Rightarrow> (error + Nomination \<times> User option list) \<times> Db" where
  "nomination_edit_metadata osu roles body db =
     (if \<not> roles_metadata roles \<and> \<not> roles_news roles
      then (Inl Forbidden, db)
      else
        (case find (\<lambda>n. nom_id n = em_nominationId body) (nominations db) of
           None \<Rightarrow> (Inl (ValidationError ''Invalid nomination ID''), db)
         | Some nomination0 \<Rightarrow>
             transact (\<lambda>c.
               (let c1 = metadata_update osu roles body nomination0 c;
                    nomination = reread_nomination (em_nominationId body) nomination0 c1;
                    c2 = c1\<lparr>beatmapset_creators :=
                           filter (\<lambda>r. \<not> (bc_beatmapset_id r = nom_beatmapset_id nomination \<and>
                                            bc_game_mode r = nom_game_mode nomination))
                                  (beatmapset_creators c1)\<rparr>
                in if isStringArray (em_creators body) \<and>
                      length (creator_names (em_creators body)) > 0
                   then
                     (case resolve_creators osu (creator_names (em_creators body)) c2 of
                        (creators, c3) \<Rightarrow>
                          (case creator_rows (nom_beatmapset_id nomination)
                                  (nom_game_mode nomination) creators of
                             Inl e \<Rightarrow> (Inl e, c3)
                           | Inr rows \<Rightarrow>
                               (Inr (nomination, creators),
                                c3\<lparr>beatmapset_creators := beatmapset_creators c3 @ rows\<rparr>)))
                   else (Inr (nomination, []), c2)))
             db))"

section \<open>Nomination deletion\<close>

text \<open>
  What each statement of the delete transaction does to its table. Every statement run
  is appended to the trace; the transaction boundaries change no table.
\<close>

fun exec :: "Statement \<Rightarrow> Db \<Rightarrow> Db" where
  "exec (DeleteAssignees nid) c =
     c\<lparr>nomination_assignees := filter (\<lambda>r. na_nomination_id r \<noteq> nid) (nomination_assignees c),
       statements := statements c @ [DeleteAssignees nid]\<rparr>"
| "exec (DeleteExcludedBeatmaps nid) c =
     c\<lparr>nomination_excluded_beatmaps :=
         filter (\<lambda>r. ne_nomination_id r \<noteq> nid) (nomination_excluded_beatmaps c),
       statements := statements c @ [DeleteExcludedBeatmaps nid]\<rparr>"
| "exec (DeleteNominators nid) c =
     c\<lparr>nomination_nominators :=
         filter (\<lambda>r. nn_nomination_id r \<noteq> nid) (nomination_nominators c),
       statements := statements c @ [DeleteNominators nid]\<rparr>"
| "exec (DeleteNominationRow nid) c =
     c\<lparr>nominations := filter (\<lambda>n. nom_id n \<noteq> nid) (nominations c),
       statements := statements c @ [DeleteNominationRow nid]\<rparr>"
| "exec boundary c = c\<lparr>statements := statements c @ [boundary]\<rparr>"

definition delete_statements :: "nat \<Rightarrow> Statement list" where
  "delete_statements nominationId =
     [DeleteAssignees nominationId, DeleteExcludedBeatmaps nominationId,
      DeleteNominators nominationId, DeleteNominationRow nominationId]"

text \<open>
  \<open>DELETE /nomination\<close>: allowed to the god role and to the nomination's nominators;
  the four statements run in list order, each awaited before the next, inside one
  transaction.
\<close>

definition nomination_delete :: "bool \<Rightarrow> nat \<Rightarrow> nat \<Rightarrow> Db \<Rightarrow> (error + unit) \<times> Db" where
  "nomination_delete god userId nominationId db =
     (if \<not> god \<and>
         find (\<lambda>r. nn_nomination_id r = nominationId \<and> nn_nominator_id r = userId)
              (nomination_nominators db) = None
      then (Inl Forbidden, db)
      else transact (\<lambda>c. (Inr (), fold exec (delete_statements nominationId) c)) db)"

section \<open>Rounds\<close>

text \<open>
  \<open>POST /add-round\<close>, behind the \<open>isNewsAuthor\<close> guard (its outcome is the first
  argument). \<open>defaultVotingThreshold gameMode\<close> stands for
  \<open>accessSetting(`defaultVotingThreshold.${gameMode}`)\<close>, the settings store being a
  parameter; a null or missing setting gives the threshold 0. The answer is the new
  round's id.
\<close>

fun insert_round_game_modes ::
  "Schema \<Rightarrow> (nat \<Rightarrow> int option) \<Rightarrow> nat \<Rightarrow> nat list \<Rightarrow> Db \<Rightarrow> Db" where
  "insert_round_game_modes schema defaultVotingThreshold insertId [] c = c"
| "insert_round_game_modes schema defaultVotingThreshold insertId (gameMode # rest) c =
     insert_round_game_modes schema defaultVotingThreshold insertId rest
       (c\<lparr>round_game_modes := round_game_modes c @
            [(default_round_game_mode schema)
               \<lparr>rgm_game_mode := gameMode,
                rgm_round_id := insertId,
                rgm_voting_threshold :=
                  (case defaultVotingThreshold gameMode of None \<Rightarrow> 0 | Some t \<Rightarrow> t)\<rparr>]\<rparr>)"

definition add_round :: "bool \<Rightarrow> Schema \<Rightarrow> (nat \<Rightarrow> int option) \<Rightarrow> Db \<Rightarrow> (error + nat) \<times> Db" where
  "add_round isNewsAuthor schema defaultVotingThreshold db =
     (if \<not> isNewsAuthor then (Inl Forbidden, db)
      else transact (\<lambda>c.
             (let insertId = rounds_auto_increment c;
                  c1 = c\<lparr>rounds := rounds c @
                           [(default_round schema)
                              \<lparr>round_id := insertId, round_name := ''Unnamed round''\<rparr>],
                         rounds_auto_increment := Suc insertId\<rparr>
              in (Inr insertId,
                  insert_round_game_modes schema defaultVotingThreshold insertId [0, 1, 2, 3]
                    c1)))
           db)"

text \<open>
  \<open>GET /rounds\<close>: every round with the count of its nominations, in id order; the
  complete ones reversed, the incomplete ones as they come.
\<close>

record RoundsResponse =
  complete_rounds :: "(Round \<times> nat) list"
  incomplete_rounds :: "(Round \<times> nat) list"

definition rounds_with_counts :: "Db \<Rightarrow> (Round \<times> nat) list" where
  "rounds_with_counts db =
     map (\<lambda>r. (r, length (filter (\<lambda>n. nom_round_id n = round_id r) (nominations db))))
         (sort_key round_id (rounds db))"

definition get_rounds :: "Db \<Rightarrow> RoundsResponse" where
  "get_rounds db =
     \<lparr>complete_rounds = rev (filter (\<lambda>(r, c). round_done r) (rounds_with_counts db)),
      incomplete_rounds = filter (\<lambda>(r, c). \<not> round_done r) (rounds_with_counts db)\<rparr>"

section \<open>Mapper consent\<close>

text \<open>
  The roles of \<open>loved-bridge\<close>; the handlers below ask for the captain role only.
  \<open>hasRole\<close>, the result of \<open>currentUserRoles(req, res)\<close>, is a parameter: it takes
  the role and, optionally, the game mode.
\<close>

datatype Role = captain | otherRole nat










section \<open>Reviews\<close>

text \<open>
  Modelled from the spec: the constant \<open>RankedStatus.pending\<close> of \<open>loved-bridge\<close>, not
  among the sources; a beatmapset whose ranked status exceeds it is ranked, loved or
  qualified.
\<close>

definition RankedStatus_pending :: int where
  "RankedStatus_pending = 0"

record UserRole =
  ur_game_mode :: nat
  ur_role_id :: Role
  ur_alumni :: bool

record ReviewBody =
  rb_beatmapsetId :: nat
  rb_gameMode :: nat
  rb_reason :: string
  rb_score :: int

definition deleteExistingSubmission :: "nat \<Rightarrow> ReviewBody \<Rightarrow> Beatmapset \<Rightarrow> Db \<Rightarrow> Db" where
  "deleteExistingSubmission userId body beatmapset c =
     (case find (\<lambda>s. sub_beatmapset_id s = rb_beatmapsetId body \<and>
                     sub_game_mode s = rb_gameMode body \<and>
                     sub_reason s = None \<and>
                     sub_submitter_id s = userId) (submissions c) of
        None \<Rightarrow> c
      | Some submissionToDelete \<Rightarrow>
          c\<lparr>submissions := filter (\<lambda>s. sub_id s \<noteq> sub_id submissionToDelete) (submissions c),
            logs := logs c @
              [submissionDeleted userId (bs_id beatmapset) submissionToDelete userId]\<rparr>)"

text \<open>The transaction of the update path, for a review that exists.\<close>

definition update_review ::
  "nat \<Rightarrow> nat \<Rightarrow> ReviewBody \<Rightarrow> Beatmapset \<Rightarrow> bool option \<Rightarrow> Review \<Rightarrow> Db \<Rightarrow>
   (error + Review \<times> bool option) \<times> Db" where
  "update_review userId now body beatmapset activeCaptain existingReview c =
     (let c1 = c\<lparr>reviews :=
                  map (\<lambda>r. if rev_id r = rev_id existingReview
                            then r\<lparr>rev_reason := rb_reason body,
                                   rev_reviewed_at := now,
                                   rev_score := rb_score body\<rparr>
                            else r)
                      (reviews c)\<rparr>
      in case find (\<lambda>r. rev_id r = rev_id existingReview) (reviews c1) of
           None \<Rightarrow> (Inl (Thrown ''Missing review immediately after update''), c1)
         | Some newReview \<Rightarrow>
             (let c2 = (if rev_reason existingReview \<noteq> rb_reason body \<or>
                           rev_score existingReview \<noteq> rb_score body
                        then c1\<lparr>logs := logs c1 @
                                 [reviewUpdated (bs_id beatmapset) existingReview newReview
                                    userId]\<rparr>
                        else c1);
                  c3 = deleteExistingSubmission userId body beatmapset c2;
                  c4 = c3\<lparr>deleted_caches := deleted_caches c3 @
                            [SubmissionsReviews (rb_gameMode body)]\<rparr>
              in (Inr (newReview, activeCaptain), c4)))"

text \<open>The transaction of the create path.\<close>

definition create_review ::
  "nat \<Rightarrow> nat \<Rightarrow> ReviewBody \<Rightarrow> Beatmapset \<Rightarrow> bool option \<Rightarrow> Db \<Rightarrow>
   (error + Review \<times> bool option) \<times> Db" where
  "create_review userId now body beatmapset activeCaptain c =
     (let insertId = reviews_auto_increment c;
          c1 = c\<lparr>reviews := reviews c @
                  [\<lparr>rev_id = insertId,
                    rev_beatmapset_id = rb_beatmapsetId body,
                    rev_game_mode = rb_gameMode body,
                    rev_reason = rb_reason body,
                    rev_reviewed_at = now,
                    rev_reviewer_id = userId,
                    rev_score = rb_score body\<rparr>],
                reviews_auto_increment := Suc insertId\<rparr>
      in case find (\<lambda>r. rev_id r = insertId) (reviews c1) of
           None \<Rightarrow> (Inl (Thrown ''Missing review immediately after create''), c1)
         | Some newReview \<Rightarrow>
             (let c2 = c1\<lparr>logs := logs c1 @
                            [reviewCreated (bs_id beatmapset) newReview userId]\<rparr>;
                  c3 = deleteExistingSubmission userId body beatmapset c2;
                  c4 = c3\<lparr>deleted_caches := deleted_caches c3 @
                            [SubmissionsReviews (rb_gameMode body)]\<rparr>
              in (Inr (newReview, activeCaptain), c4)))"

text \<open>
  \<open>POST /review\<close> of the router open to anyone. \<open>userRoles\<close> is the acting user's list
  of roles, read for the \<open>active_captain\<close> flag of the answer.
\<close>

definition review ::
  "Osu \<Rightarrow> (Role \<Rightarrow> nat option \<Rightarrow> bool) \<Rightarrow> nat \<Rightarrow> UserRole list \<Rightarrow> nat \<Rightarrow> ReviewBody \<Rightarrow> Db \<Rightarrow>
   (error + Review \<times> bool option) \<times> Db" where
  "review osu hasRole userId userRoles now body db =
     (if \<not> isGameMode (rb_gameMode body)
      then (Inl (ValidationError ''Invalid game mode''), db)
      else if rb_score body < - 4 \<or> rb_score body > 3
      then (Inl (ValidationError ''Invalid score''), db)
      else if rb_score body \<in> {- 4, 0} \<and> \<not> hasRole captain (Some (rb_gameMode body))
      then (Inl Forbidden, db)
      else
        (let existingReview =
               find (\<lambda>r. rev_beatmapset_id r = rb_beatmapsetId body \<and>
                         rev_reviewer_id r = userId \<and>
                         rev_game_mode r = rb_gameMode body) (reviews db)
         in if (rb_score body = - 2 \<or> rb_score body = 2) \<and>
               Some (rb_score body) \<noteq> map_option rev_score existingReview
            then (Inl (ValidationError ''Invalid score''), db)
            else
              (case osu_beatmapset osu (rb_beatmapsetId body) True db of
                 (None, db1) \<Rightarrow> (Inl (ValidationError ''Invalid beatmapset ID''), db1)
               | (Some beatmapset, db1) \<Rightarrow>
                   if bs_ranked_status beatmapset > RankedStatus_pending
                   then (Inl (ValidationError ''Beatmapset is already Ranked/Loved/Qualified''),
                         db1)
                   else if rb_gameMode body \<notin> bs_game_modes beatmapset
                   then (Inl (ValidationError ''Beatmapset has no beatmaps in game mode ''), db1)
                   else
                     (let captainRole =
                            find (\<lambda>role. ur_game_mode role = rb_gameMode body \<and>
                                         ur_role_id role = captain) userRoles;
                          activeCaptain =
                            (case captainRole of None \<Rightarrow> None
                             | Some role \<Rightarrow> Some (\<not> ur_alumni role))
                      in case existingReview of
                           Some existing \<Rightarrow>
                             transact (update_review userId now body beatmapset activeCaptain
                                         existing) db1
                         | None \<Rightarrow>
                             transact (create_review userId now body beatmapset activeCaptain)
                               db1))))"

section \<open>Auxiliary definitions\<close>

text \<open>
  What the statements below name: the rows the handlers write, and readers of their
  answers and of the audit log.
\<close>

text \<open>The row the UPDATE of \<open>metadata_update\<close> leaves in place of a nomination.\<close>

definition metadata_row :: "AuthRoles \<Rightarrow> EditMetadataBody \<Rightarrow> Nomination \<Rightarrow> Nomination" where
  "metadata_row roles body n =
     (if roles_metadata roles \<and> nom_id n = em_nominationId body
      then n\<lparr>nom_metadata_state := em_state body,
             nom_overwrite_artist := (if em_state body = good then None else em_artist body),
             nom_overwrite_title := (if em_state body = good then None else em_title body)\<rparr>
      else n)"

text \<open>The row \<open>/add-round\<close> inserts for a game mode, and the round it inserts.\<close>

definition seeded_round_game_mode ::
  "Schema \<Rightarrow> (nat \<Rightarrow> int option) \<Rightarrow> nat \<Rightarrow> nat \<Rightarrow> RoundGameMode" where
  "seeded_round_game_mode schema defaultVotingThreshold insertId gameMode =
     (default_round_game_mode schema)
       \<lparr>rgm_game_mode := gameMode,
        rgm_round_id := insertId,
        rgm_voting_threshold :=
          (case defaultVotingThreshold gameMode of None \<Rightarrow> 0 | Some t \<Rightarrow> t)\<rparr>"

definition unnamed_round :: "Schema \<Rightarrow> nat \<Rightarrow> Round" where
  "unnamed_round schema insertId =
     (default_round schema)\<lparr>round_id := insertId, round_name := ''Unnamed round''\<rparr>"

text \<open>The row a successful submission inserts.\<close>

definition submitted_row :: "Schema \<Rightarrow> NominationSubmitBody \<Rightarrow> nat \<Rightarrow> Db \<Rightarrow> Nomination" where
  "submitted_row schema body beatmapsetId db =
     (default_nomination schema)
       \<lparr>nom_id := nominations_auto_increment db,
        nom_beatmapset_id := beatmapsetId,
        nom_game_mode := ns_gameMode body,
        nom_order := int (nominationCount db (ns_roundId body) (ns_gameMode body)),
        nom_parent_id := ns_parentId body,
        nom_round_id := ns_roundId body\<rparr>"

text \<open>The order a submission was given, when it succeeded.\<close>

definition submitted_order :: "(error + Nomination option) \<times> Db \<Rightarrow> int option" where
  "submitted_order res =
     (case fst res of Inr (Some n) \<Rightarrow> Some (nom_order n) | _ \<Rightarrow> None)"

text \<open>The review row after the UPDATE of the update path.\<close>

definition updated_review :: "nat \<Rightarrow> ReviewBody \<Rightarrow> Review \<Rightarrow> Review" where
  "updated_review now body r =
     r\<lparr>rev_reason := rb_reason body, rev_reviewed_at := now, rev_score := rb_score body\<rparr>"

text \<open>The audit record of the submission that \<open>deleteExistingSubmission\<close> deletes, if any.\<close>

definition submission_log :: "nat \<Rightarrow> ReviewBody \<Rightarrow> Beatmapset \<Rightarrow> Db \<Rightarrow> Log list" where
  "submission_log userId body beatmapset c =
     (case find (\<lambda>s. sub_beatmapset_id s = rb_beatmapsetId body \<and>
                     sub_game_mode s = rb_gameMode body \<and>
                     sub_reason s = None \<and>
                     sub_submitter_id s = userId) (submissions c) of
        None \<Rightarrow> []
      | Some s \<Rightarrow> [submissionDeleted userId (bs_id beatmapset) s userId])"



text \<open>Whether an audit record is a \<open>reviewUpdated\<close> one.\<close>

fun is_reviewUpdated :: "Log \<Rightarrow> bool" where
  "is_reviewUpdated (reviewUpdated b f t u) = True"
| "is_reviewUpdated _ = False"

section \<open>Example states\<close>

text \<open>
  Concrete states, actors and collaborators, on which the theorems are instantiated.
\<close>

definition empty_db :: Db where
  "empty_db =
     \<lparr>nominations = [], nominations_auto_increment = 1, nomination_nominators = [],
      nomination_assignees = [], nomination_excluded_beatmaps = [], beatmapset_creators = [],
      beatmapsets = [], users = [], rounds = [], rounds_auto_increment = 1,
      round_game_modes = [], mapper_consents = [], mapper_consent_beatmapsets = [],
      reviews = [], reviews_auto_increment = 1, submissions = [], logs = [],
      statements = [], osu_calls = [], deleted_caches = []\<rparr>"

definition example_nomination :: Nomination where
  "example_nomination =
     \<lparr>nom_id = 1, nom_beatmapset_id = 10, nom_description = Some ''old'',
      nom_description_author_id = Some 7, nom_description_state = notReviewed,
      nom_game_mode = 0, nom_metadata_state = needsChange, nom_moderator_state = 0,
      nom_order = 0, nom_overwrite_artist = Some ''artist'', nom_overwrite_title = Some ''title'',
      nom_parent_id = None, nom_round_id = 1\<rparr>"

definition example_db :: Db where
  "example_db =
     empty_db\<lparr>nominations := [example_nomination], nominations_auto_increment := 2,
              nomination_nominators := [\<lparr>nn_nomination_id = 1, nn_nominator_id = 7\<rparr>],
              nomination_assignees := [\<lparr>na_assignee_id = 8, na_nomination_id = 1, na_type = 0\<rparr>],
              nomination_excluded_beatmaps := [\<lparr>ne_beatmap_id = 100, ne_nomination_id = 1\<rparr>],
              beatmapset_creators :=
                [\<lparr>bc_beatmapset_id = 10, bc_creator_id = 9, bc_game_mode = 0\<rparr>]\<rparr>"

text \<open>The same state with the nomination's description and author still null.\<close>

definition example_blank_db :: Db where
  "example_blank_db =
     example_db\<lparr>nominations :=
       [example_nomination\<lparr>nom_description := None, nom_description_author_id := None\<rparr>]\<rparr>"

definition news_roles :: AuthRoles where
  "news_roles = \<lparr>roles_news = True, roles_metadata = False, roles_moderator = False,
                 roles_god = False, roles_gameModes = (\<lambda>g. False)\<rparr>"

definition captain_roles :: AuthRoles where
  "captain_roles = \<lparr>roles_news = False, roles_metadata = False, roles_moderator = False,
                    roles_god = False, roles_gameModes = (\<lambda>g. True)\<rparr>"

definition metadata_roles :: AuthRoles where
  "metadata_roles = \<lparr>roles_news = False, roles_metadata = True, roles_moderator = False,
                     roles_god = False, roles_gameModes = (\<lambda>g. False)\<rparr>"

text \<open>A collaborator that resolves nothing, and one that resolves everything.\<close>

definition osu_none :: Osu where
  "osu_none = \<lparr>createOrRefreshBeatmapset = (\<lambda>cache bid force. (None, cache)),
               createOrRefreshUser = (\<lambda>cache key. (None, cache))\<rparr>"

definition osu_all :: Osu where
  "osu_all =
     \<lparr>createOrRefreshBeatmapset =
        (\<lambda>cache bid force.
           (Some \<lparr>bs_id = bid, bs_ranked_status = 0, bs_game_modes = {0, 1, 2, 3}\<rparr>, cache)),
      createOrRefreshUser =
        (\<lambda>cache key.
           (Some \<lparr>user_id = (case key of ById i \<Rightarrow> i | ByName name \<Rightarrow> length name),
                  user_name = (case key of ById i \<Rightarrow> ''user'' | ByName name \<Rightarrow> name)\<rparr>,
            cache))\<rparr>"


definition example_metadata_body :: EditMetadataBody where
  "example_metadata_body =
     \<lparr>em_nominationId = 1, em_state = good, em_artist = Some ''new artist'',
      em_title = Some ''new title'', em_creators = Absent\<rparr>"

definition example_schema :: Schema where
  "example_schema =
     \<lparr>default_nomination =
        \<lparr>nom_id = 0, nom_beatmapset_id = 0, nom_description = None,
         nom_description_author_id = None, nom_description_state = notReviewed,
         nom_game_mode = 0, nom_metadata_state = uncheckedState, nom_moderator_state = 0,
         nom_order = 0, nom_overwrite_artist = None, nom_overwrite_title = None,
         nom_parent_id = None, nom_round_id = 0\<rparr>,
      default_round = \<lparr>round_id = 0, round_name = [], round_done = False\<rparr>,
      default_round_game_mode =
        \<lparr>rgm_round_id = 0, rgm_game_mode = 0, rgm_voting_threshold = 0,
         rgm_nominations_locked = False\<rparr>\<rparr>"

definition example_thresholds :: "nat \<Rightarrow> int option" where
  "example_thresholds gameMode = (if gameMode = 0 then Some 5 else None)"

text \<open>A state with one complete round, for the round examples.\<close>

definition example_rounds_db :: Db where
  "example_rounds_db =
     example_db\<lparr>rounds := [\<lparr>round_id = 1, round_name = ''first'', round_done = True\<rparr>],
                rounds_auto_increment := 2,
                round_game_modes :=
                  [\<lparr>rgm_round_id = 1, rgm_game_mode = 0, rgm_voting_threshold = 3,
                    rgm_nominations_locked = True\<rparr>]\<rparr>"

text \<open>
  The scenario of two submissions to round 1, game mode 0, the deletion of the first
  and a third submission, from the empty database.
\<close>

definition submit_body :: "nat \<Rightarrow> NominationSubmitBody" where
  "submit_body beatmapsetId =
     \<lparr>ns_beatmapsetId = beatmapsetId, ns_gameMode = 0, ns_parentId = None, ns_roundId = 1\<rparr>"

definition scenario_db1 :: Db where
  "scenario_db1 = snd (nomination_submit osu_all example_schema 7 (submit_body 11) empty_db)"

definition scenario_db2 :: Db where
  "scenario_db2 = snd (nomination_submit osu_all example_schema 7 (submit_body 12) scenario_db1)"

definition scenario_db3 :: Db where
  "scenario_db3 = snd (nomination_delete False 7 1 scenario_db2)"

text \<open>A state with one review of score 2, and requests of its reviewer on the same key.\<close>

definition example_review :: Review where
  "example_review =
     \<lparr>rev_id = 1, rev_beatmapset_id = 10, rev_game_mode = 0, rev_reason = ''good'',
      rev_reviewed_at = 100, rev_reviewer_id = 7, rev_score = 2\<rparr>"

definition example_review_db :: Db where
  "example_review_db = empty_db\<lparr>reviews := [example_review], reviews_auto_increment := 2\<rparr>"

definition review_body :: "string \<Rightarrow> int \<Rightarrow> ReviewBody" where
  "review_body reason score =
     \<lparr>rb_beatmapsetId = 10, rb_gameMode = 0, rb_reason = reason, rb_score = score\<rparr>"

definition no_role :: "Role \<Rightarrow> nat option \<Rightarrow> bool" where
  "no_role role gameMode = False"




section \<open>Lemmas on lists\<close>

lemma find_map_update:
  assumes "\<And>r. P (f r) = P r"
  shows "find P (map (\<lambda>r. if P r then f r else r) xs) = map_option f (find P xs)"
  using assms by (induction xs) auto

lemma find_map_pres:
  assumes "\<And>r. P (g r) = P r"
  shows "find P (map g xs) = map_option g (find P xs)"
  using assms by (induction xs) auto

lemma find_conj_unique:
  assumes "distinct (map f xs)"
    and "find (\<lambda>n. f n = k) xs = Some a"
    and "find (\<lambda>n. f n = k \<and> Q n) xs = Some b"
  shows "b = a"
proof -
  from assms(2) have a: "a \<in> set xs" "f a = k"
    by (auto simp: find_Some_iff)
  from assms(3) have b: "b \<in> set xs" "f b = k"
    by (auto simp: find_Some_iff)
  from assms(1) have "inj_on f (set xs)"
    by (simp add: distinct_map)
  with a b show ?thesis by (auto dest: inj_onD)
qed

lemma find_same_key:
  assumes "find P xs = Some e"
  shows "\<exists>e0. find (\<lambda>r. f r = f e) xs = Some e0 \<and> f e0 = f e"
proof -
  from assms have "e \<in> set xs" by (auto simp: find_Some_iff)
  then have "find (\<lambda>r. f r = f e) xs \<noteq> None" by (auto simp: find_None_iff)
  then obtain e0 where "find (\<lambda>r. f r = f e) xs = Some e0" by auto
  moreover from this have "f e0 = f e" by (auto simp: find_Some_iff)
  ultimately show ?thesis by blast
qed

lemma find_fresh_append:
  assumes "\<forall>n\<in>set xs. f n < (k::nat)" and "f x = k"
  shows "find (\<lambda>n. f n = k) (xs @ [x]) = Some x"
  using assms by (induction xs) auto

lemma filter_filter_not: "filter P (filter (\<lambda>r. \<not> P r) xs) = []"
  by (induction xs) auto

lemma filter_none: "(\<And>x. x \<in> set xs \<Longrightarrow> \<not> P x) \<Longrightarrow> filter P xs = []"
  by (simp add: filter_empty_conv)

lemma filter_ids_fresh:
  assumes "\<forall>n\<in>set xs. f n < (k::nat)" and "k \<le> d"
  shows "filter (\<lambda>n. f n \<noteq> d) xs = xs"
  using assms by (induction xs) auto

section \<open>What the collaborator leaves alone\<close>

lemma osu_beatmapset_frame:
  "nominations (snd (osu_beatmapset osu bid force c)) = nominations c"
  "beatmapset_creators (snd (osu_beatmapset osu bid force c)) = beatmapset_creators c"
  "osu_calls (snd (osu_beatmapset osu bid force c)) = osu_calls c @ [BeatmapsetCall bid force]"
  by (simp_all add: osu_beatmapset_def split: prod.splits)

lemma osu_beatmapset_frame2:
  "nominations_auto_increment (snd (osu_beatmapset osu bid force c)) = nominations_auto_increment c"
  "nomination_nominators (snd (osu_beatmapset osu bid force c)) = nomination_nominators c"
  "nominationCount (snd (osu_beatmapset osu bid force c)) r g = nominationCount c r g"
  by (simp_all add: osu_beatmapset_def nominationCount_def split: prod.splits)

lemma osu_beatmapset_reviews:
  "reviews (snd (osu_beatmapset osu bid force c)) = reviews c"
  "logs (snd (osu_beatmapset osu bid force c)) = logs c"
  "submissions (snd (osu_beatmapset osu bid force c)) = submissions c"
  by (simp_all add: osu_beatmapset_def split: prod.splits)


lemma osu_user_frame:
  "nominations (snd (osu_user osu key c)) = nominations c"
  "beatmapset_creators (snd (osu_user osu key c)) = beatmapset_creators c"
  "osu_calls (snd (osu_user osu key c)) = osu_calls c @ [UserCall key]"
  by (simp_all add: osu_user_def split: prod.splits)


section \<open>Properties of the description edit\<close>

lemma edit_description_success:
  assumes "nomination_edit_description roles userId body db = (Inr r, db')"
  shows "\<exists>prev.
    find (\<lambda>n. nom_id n = ed_nominationId body) (nominations db) = Some prev \<and>
    find (\<lambda>n. nom_id n = ed_nominationId body) (nominations db') =
       Some (prev\<lparr>nom_description := ed_description body,
                  nom_description_author_id :=
                    (if ed_description body = None then None
                     else if nom_description prev = None then Some userId
                     else nom_description_author_id prev),
                  nom_description_state :=
                    (if roles_news roles \<and> nom_description prev \<noteq> None \<and>
                        ed_description body \<noteq> None
                     then reviewed else notReviewed)\<rparr>)"
proof -
  obtain prev where prev: "find (\<lambda>n. nom_id n = ed_nominationId body) (nominations db) = Some prev"
    using assms by (auto simp: nomination_edit_description_def split: option.splits)
  let ?f = "\<lambda>n. n\<lparr>nom_description := ed_description body,
                   nom_description_author_id :=
                     (if ed_description body = None then None
                      else if nom_description prev = None then Some userId
                      else nom_description_author_id prev),
                   nom_description_state :=
                     (if roles_news roles \<and> nom_description prev \<noteq> None \<and>
                         ed_description body \<noteq> None
                      then reviewed else notReviewed)\<rparr>"
  have db': "nominations db' =
      map (\<lambda>n. if nom_id n = ed_nominationId body then ?f n else n) (nominations db)"
    using assms prev
    by (auto simp: nomination_edit_description_def Let_def split: if_splits)
  have "find (\<lambda>n. nom_id n = ed_nominationId body) (nominations db') = Some (?f prev)"
    unfolding db' by (subst find_map_update) (simp_all add: prev)
  with prev show ?thesis by blast
qed

text \<open>
  C6: after a successful description edit the stored description state is \<open>reviewed\<close>
  exactly when the actor holds the news capability, the nomination had a description
  before the edit and the new description is not null; otherwise it is \<open>notReviewed\<close>.
  When the previous description was null and the new one is not, the stored author is
  the acting user.
\<close>

theorem edit_description_state_and_author:
  assumes "nomination_edit_description roles userId body db = (Inr r, db')"
  shows "\<exists>prev new.
           find (\<lambda>n. nom_id n = ed_nominationId body) (nominations db) = Some prev \<and>
           find (\<lambda>n. nom_id n = ed_nominationId body) (nominations db') = Some new \<and>
           nom_description new = ed_description body \<and>
           (nom_description_state new = reviewed \<longleftrightarrow>
              roles_news roles \<and> nom_description prev \<noteq> None \<and> ed_description body \<noteq> None) \<and>
           (nom_description_state new \<noteq> reviewed \<longrightarrow> nom_description_state new = notReviewed) \<and>
           (nom_description prev = None \<and> ed_description body \<noteq> None \<longrightarrow>
              nom_description_author_id new = Some userId)"
  using edit_description_success[OF assms] by auto

theorem edit_description_state_and_author_witness:
  "(\<exists>r db' prev new.
      nomination_edit_description news_roles 5
        \<lparr>ed_nominationId = 1, ed_description = Some ''new''\<rparr> example_db = (Inr r, db') \<and>
      find (\<lambda>n. nom_id n = 1) (nominations example_db) = Some prev \<and>
      nom_description prev = Some ''old'' \<and>
      find (\<lambda>n. nom_id n = 1) (nominations db') = Some new \<and>
      nom_description new = Some ''new'' \<and>
      nom_description_state new = reviewed) \<and>
   (\<exists>r db' prev new.
      nomination_edit_description captain_roles 5
        \<lparr>ed_nominationId = 1, ed_description = Some ''first''\<rparr> example_blank_db = (Inr r, db') \<and>
      find (\<lambda>n. nom_id n = 1) (nominations example_blank_db) = Some prev \<and>
      nom_description prev = None \<and> nom_description_author_id prev = None \<and>
      find (\<lambda>n. nom_id n = 1) (nominations db') = Some new \<and>
      nom_description new = Some ''first'' \<and>
      nom_description_state new = notReviewed \<and>
      nom_description_author_id new = Some 5)"
proof -
  obtain r db' where eq:
    "nomination_edit_description news_roles 5
       \<lparr>ed_nominationId = 1, ed_description = Some ''new''\<rparr> example_db = (Inr r, db')"
    by (simp add: nomination_edit_description_def example_db_def empty_db_def
          example_nomination_def news_roles_def)
  have prev: "find (\<lambda>n. nom_id n = 1) (nominations example_db) = Some example_nomination"
    "nom_description example_nomination = Some ''old''"
    by (simp_all add: example_db_def empty_db_def example_nomination_def)
  from edit_description_state_and_author[OF eq] eq prev
  have existing: "\<exists>r db' prev new.
      nomination_edit_description news_roles 5
        \<lparr>ed_nominationId = 1, ed_description = Some ''new''\<rparr> example_db = (Inr r, db') \<and>
      find (\<lambda>n. nom_id n = 1) (nominations example_db) = Some prev \<and>
      nom_description prev = Some ''old'' \<and>
      find (\<lambda>n. nom_id n = 1) (nominations db') = Some new \<and>
      nom_description new = Some ''new'' \<and>
      nom_description_state new = reviewed"
    by (auto simp: news_roles_def)
  obtain r2 db2 where eq2:
    "nomination_edit_description captain_roles 5
       \<lparr>ed_nominationId = 1, ed_description = Some ''first''\<rparr> example_blank_db = (Inr r2, db2)"
    by (simp add: nomination_edit_description_def example_blank_db_def example_db_def
          empty_db_def example_nomination_def captain_roles_def)
  have prev2: "find (\<lambda>n. nom_id n = 1) (nominations example_blank_db) =
      Some (example_nomination\<lparr>nom_description := None, nom_description_author_id := None\<rparr>)"
    by (simp add: example_blank_db_def example_db_def empty_db_def example_nomination_def)
  from edit_description_state_and_author[OF eq2] eq2 prev2
  have first: "\<exists>r db' prev new.
      nomination_edit_description captain_roles 5
        \<lparr>ed_nominationId = 1, ed_description = Some ''first''\<rparr> example_blank_db = (Inr r, db') \<and>
      find (\<lambda>n. nom_id n = 1) (nominations example_blank_db) = Some prev \<and>
      nom_description prev = None \<and> nom_description_author_id prev = None \<and>
      find (\<lambda>n. nom_id n = 1) (nominations db') = Some new \<and>
      nom_description new = Some ''first'' \<and>
      nom_description_state new = notReviewed \<and>
      nom_description_author_id new = Some 5"
    by (auto simp: captain_roles_def)
  from existing first show ?thesis by (rule conjI)
qed

text \<open>
  C10: a successful description edit that clears the description to null also stores
  a null author, whoever the author was before.
\<close>

theorem edit_description_clear_erases_author:
  assumes "nomination_edit_description roles userId body db = (Inr r, db')"
    and "ed_description body = None"
  shows "\<exists>prev new.
           find (\<lambda>n. nom_id n = ed_nominationId body) (nominations db) = Some prev \<and>
           find (\<lambda>n. nom_id n = ed_nominationId body) (nominations db') = Some new \<and>
           nom_description new = None \<and> nom_description_author_id new = None"
  using edit_description_success[OF assms(1)] assms(2) by auto

theorem edit_description_clear_erases_author_witness:
  "\<exists>r db'. nomination_edit_description captain_roles 5
              \<lparr>ed_nominationId = 1, ed_description = None\<rparr> example_db = (Inr r, db') \<and>
     ed_description \<lparr>ed_nominationId = 1, ed_description = None\<rparr> = None \<and>
     (\<exists>prev new.
        find (\<lambda>n. nom_id n = 1) (nominations example_db) = Some prev \<and>
        nom_description_author_id prev = Some 7 \<and>
        find (\<lambda>n. nom_id n = 1) (nominations db') = Some new \<and>
        nom_description new = None \<and> nom_description_author_id new = None)"
proof -
  obtain r db' where eq:
    "nomination_edit_description captain_roles 5
       \<lparr>ed_nominationId = 1, ed_description = None\<rparr> example_db = (Inr r, db')"
    by (simp add: nomination_edit_description_def example_db_def empty_db_def
          example_nomination_def captain_roles_def)
  have prev: "find (\<lambda>n. nom_id n = 1) (nominations example_db) = Some example_nomination"
    by (simp add: example_db_def empty_db_def example_nomination_def)
  from edit_description_clear_erases_author[OF eq] eq prev show ?thesis
    by (simp add: example_nomination_def)
qed

section \<open>Properties of the metadata edit\<close>

lemma metadata_row_keys:
  "nom_id (metadata_row roles body n) = nom_id n"
  "nom_beatmapset_id (metadata_row roles body n) = nom_beatmapset_id n"
  "nom_game_mode (metadata_row roles body n) = nom_game_mode n"
  by (simp_all add: metadata_row_def)

lemma metadata_update_nominations:
  "nominations (metadata_update osu roles body n0 c) = map (metadata_row roles body) (nominations c)"
proof (cases "roles_metadata roles")
  case True
  then show ?thesis
    by (auto simp: metadata_update_def metadata_row_def Let_def osu_beatmapset_frame)
next
  case False
  then have "metadata_row roles body = (\<lambda>n. n)"
    by (auto simp: metadata_row_def fun_eq_iff)
  then show ?thesis using False by (simp add: metadata_update_def)
qed

lemma metadata_update_creators:
  "beatmapset_creators (metadata_update osu roles body n0 c) = beatmapset_creators c"
  by (simp add: metadata_update_def Let_def osu_beatmapset_frame)

lemma metadata_update_calls:
  "osu_calls (metadata_update osu roles body n0 c) =
     osu_calls c @
       (if roles_metadata roles \<and> em_state body = good \<and> nom_metadata_state n0 = needsChange
        then [BeatmapsetCall (nom_beatmapset_id n0) True] else [])"
  by (simp add: metadata_update_def Let_def osu_beatmapset_frame)

lemma reread_nomination_keys:
  assumes "distinct (map nom_id (nominations db))"
    and "find (\<lambda>n. nom_id n = em_nominationId body) (nominations db) = Some n0"
  shows "nom_beatmapset_id (reread_nomination (em_nominationId body) n0
            (metadata_update osu roles body n0 db)) = nom_beatmapset_id n0 \<and>
         nom_game_mode (reread_nomination (em_nominationId body) n0
            (metadata_update osu roles body n0 db)) = nom_game_mode n0"
proof -
  let ?c = "metadata_update osu roles body n0 db"
  let ?xs = "map (metadata_row roles body) (nominations db)"
  have d: "distinct (map nom_id ?xs)"
    using assms(1) by (simp add: o_def metadata_row_keys)
  have f: "find (\<lambda>n. nom_id n = em_nominationId body) ?xs = Some (metadata_row roles body n0)"
    by (subst find_map_pres) (simp_all add: metadata_row_keys assms(2))
  show ?thesis
  proof (cases "find (\<lambda>n. nom_id n = em_nominationId body \<and>
                   find (\<lambda>b. bs_id b = nom_beatmapset_id n) (beatmapsets ?c) \<noteq> None) ?xs")
    case None
    then show ?thesis
      by (simp add: reread_nomination_def metadata_update_nominations)
  next
    case (Some row)
    from find_conj_unique[OF d f Some] have "row = metadata_row roles body n0" .
    with Some show ?thesis
      by (simp add: reread_nomination_def metadata_update_nominations metadata_row_keys)
  qed
qed

lemma resolve_creators_frame:
  "nominations (snd (resolve_creators osu names c)) = nominations c \<and>
   beatmapset_creators (snd (resolve_creators osu names c)) = beatmapset_creators c \<and>
   osu_calls (snd (resolve_creators osu names c)) =
     osu_calls c @ map (\<lambda>name. UserCall (ByName name)) names"
proof (induction names arbitrary: c)
  case Nil
  then show ?case by simp
next
  case (Cons name names)
  obtain u c1 where u: "osu_user osu (ByName name) c = (u, c1)"
    by (cases "osu_user osu (ByName name) c")
  obtain us c2 where us: "resolve_creators osu names c1 = (us, c2)"
    by (cases "resolve_creators osu names c1")
  from osu_user_frame[of osu "ByName name" c] u
  have c1: "nominations c1 = nominations c" "beatmapset_creators c1 = beatmapset_creators c"
    "osu_calls c1 = osu_calls c @ [UserCall (ByName name)]"
    by simp_all
  from Cons.IH[of c1] us
  have c2: "nominations c2 = nominations c1" "beatmapset_creators c2 = beatmapset_creators c1"
    "osu_calls c2 = osu_calls c1 @ map (\<lambda>name. UserCall (ByName name)) names"
    by simp_all
  show ?case by (simp add: u us c1 c2)
qed

lemma creator_names_not_array: "\<not> isStringArray cs \<Longrightarrow> creator_names cs = []"
  by (cases cs) simp_all

text \<open>
  C7: a metadata edit by a metadata checker that sets the state to \<open>good\<close> asks the
  collaborator for a forced refresh of the beatmapset exactly when the nomination was
  \<open>needsChange\<close> before (the other calls are the creator names being resolved), and
  when the edit succeeds the stored row is \<open>good\<close> with null artist and title
  overwrites, whatever artist and title the request carried.
\<close>

theorem edit_metadata_good_clears_overwrites:
  assumes md: "roles_metadata roles" and st: "em_state body = good"
    and nom: "find (\<lambda>n. nom_id n = em_nominationId body) (nominations db) = Some nomination"
  shows "osu_calls (snd (nomination_edit_metadata osu roles body db)) =
           osu_calls db @
           (if nom_metadata_state nomination = needsChange
            then [BeatmapsetCall (nom_beatmapset_id nomination) True] else []) @
           map (\<lambda>name. UserCall (ByName name)) (creator_names (em_creators body)) \<and>
         ((\<exists>r. fst (nomination_edit_metadata osu roles body db) = Inr r) \<longrightarrow>
          (\<exists>new. find (\<lambda>n. nom_id n = em_nominationId body)
                    (nominations (snd (nomination_edit_metadata osu roles body db))) = Some new \<and>
                 nom_metadata_state new = good \<and>
                 nom_overwrite_artist new = None \<and>
                 nom_overwrite_title new = None))"
proof -
  let ?c1 = "metadata_update osu roles body nomination (begin_transaction db)"
  let ?n = "reread_nomination (em_nominationId body) nomination ?c1"
  let ?c2 = "?c1\<lparr>beatmapset_creators :=
                 filter (\<lambda>r. \<not> (bc_beatmapset_id r = nom_beatmapset_id ?n \<and>
                                  bc_game_mode r = nom_game_mode ?n))
                        (beatmapset_creators ?c1)\<rparr>"
  have calls1: "osu_calls ?c2 = osu_calls db @
      (if nom_metadata_state nomination = needsChange
       then [BeatmapsetCall (nom_beatmapset_id nomination) True] else [])"
    using md st by (simp add: metadata_update_calls begin_transaction_def)
  have noms1: "nominations ?c2 = map (metadata_row roles body) (nominations db)"
    by (simp add: metadata_update_nominations begin_transaction_def)
  have found: "find (\<lambda>n. nom_id n = em_nominationId body)
                 (map (metadata_row roles body) (nominations db)) =
               Some (metadata_row roles body nomination)"
    by (subst find_map_pres) (simp_all add: metadata_row_keys nom)
  have row: "nom_metadata_state (metadata_row roles body nomination) = good \<and>
             nom_overwrite_artist (metadata_row roles body nomination) = None \<and>
             nom_overwrite_title (metadata_row roles body nomination) = None"
    using md st nom by (auto simp: metadata_row_def find_Some_iff)
  show ?thesis
  proof (cases "isStringArray (em_creators body) \<and> length (creator_names (em_creators body)) > 0")
    case False
    then have names: "creator_names (em_creators body) = []"
      using creator_names_not_array by auto
    have "nomination_edit_metadata osu roles body db = (Inr (?n, []), commit ?c2)"
      using md False
      by (simp add: nomination_edit_metadata_def nom transact_def Let_def)
    then show ?thesis
      using calls1 noms1 found row names by (simp add: commit_def)
  next
    case True
    obtain creators c3 where rc:
      "resolve_creators osu (creator_names (em_creators body)) ?c2 = (creators, c3)"
      by (cases "resolve_creators osu (creator_names (em_creators body)) ?c2")
    from resolve_creators_frame[of osu "creator_names (em_creators body)" ?c2] rc
    have c3: "nominations c3 = nominations ?c2"
      "osu_calls c3 = osu_calls ?c2 @
         map (\<lambda>name. UserCall (ByName name)) (creator_names (em_creators body))"
      by simp_all
    show ?thesis
    proof (cases "creator_rows (nom_beatmapset_id ?n) (nom_game_mode ?n) creators")
      case (Inl e)
      have "nomination_edit_metadata osu roles body db = (Inl e, rollback db c3)"
        using md True rc Inl
        by (simp add: nomination_edit_metadata_def nom transact_def Let_def)
      then show ?thesis
        using c3 calls1 by (simp add: rollback_def)
    next
      case (Inr rows)
      have "nomination_edit_metadata osu roles body db =
          (Inr (?n, creators), commit (c3\<lparr>beatmapset_creators := beatmapset_creators c3 @ rows\<rparr>))"
        using md True rc Inr
        by (simp add: nomination_edit_metadata_def nom transact_def Let_def)
      then show ?thesis
        using c3 calls1 noms1 found row by (simp add: commit_def)
    qed
  qed
qed

theorem edit_metadata_good_clears_overwrites_witness:
  "roles_metadata metadata_roles \<and> em_state example_metadata_body = good \<and>
   find (\<lambda>n. nom_id n = em_nominationId example_metadata_body) (nominations example_db) =
     Some example_nomination \<and>
   nom_metadata_state example_nomination = needsChange \<and>
   nom_overwrite_artist example_nomination = Some ''artist'' \<and>
   osu_calls (snd (nomination_edit_metadata osu_none metadata_roles example_metadata_body
                     example_db)) = [BeatmapsetCall 10 True] \<and>
   (\<exists>r. fst (nomination_edit_metadata osu_none metadata_roles example_metadata_body
                example_db) = Inr r) \<and>
   (\<exists>new. find (\<lambda>n. nom_id n = em_nominationId example_metadata_body)
             (nominations (snd (nomination_edit_metadata osu_none metadata_roles
                                  example_metadata_body example_db))) = Some new \<and>
          nom_metadata_state new = good \<and>
          nom_overwrite_artist new = None \<and>
          nom_overwrite_title new = None)"
proof -
  have h1: "roles_metadata metadata_roles"
    by (simp add: metadata_roles_def)
  have h2: "em_state example_metadata_body = good"
    by (simp add: example_metadata_body_def)
  have h3: "find (\<lambda>n. nom_id n = em_nominationId example_metadata_body) (nominations example_db) =
      Some example_nomination"
    by (simp add: example_metadata_body_def example_db_def empty_db_def example_nomination_def)
  have h4: "\<exists>r. fst (nomination_edit_metadata osu_none metadata_roles example_metadata_body
                example_db) = Inr r"
  proof -
    have "em_creators example_metadata_body = Absent"
      by (simp add: example_metadata_body_def)
    then show ?thesis
      by (simp add: nomination_edit_metadata_def h1 h3 transact_def Let_def)
  qed
  have ex: "nom_metadata_state example_nomination = needsChange"
    "nom_overwrite_artist example_nomination = Some ''artist''"
    "nom_beatmapset_id example_nomination = 10"
    "osu_calls example_db = []"
    "creator_names (em_creators example_metadata_body) = []"
    by (simp_all add: example_nomination_def example_db_def empty_db_def
          example_metadata_body_def)
  from edit_metadata_good_clears_overwrites[OF h1 h2 h3, of osu_none] h1 h2 h3 h4 ex
  show ?thesis by simp
qed

text \<open>
  C9: when the \<open>creators\<close> field of a metadata edit is absent, is not an array of
  strings, or is the empty array, the edit still deletes every creator row of the
  nomination's beatmapset and game mode and inserts none: the answer's creator list is
  empty, the other creator rows are as they were, and no row of that beatmapset and
  game mode is left. The nomination ids are taken unique, as the primary key makes them.
\<close>

theorem edit_metadata_creators_always_deleted:
  assumes auth: "roles_metadata roles \<or> roles_news roles"
    and nom: "find (\<lambda>n. nom_id n = em_nominationId body) (nominations db) = Some nomination"
    and pk: "distinct (map nom_id (nominations db))"
    and cr: "em_creators body = Absent \<or> em_creators body = NotStringArray \<or>
             em_creators body = StringArray []"
  shows "\<exists>r db'. nomination_edit_metadata osu roles body db = (Inr r, db') \<and>
           snd r = [] \<and>
           beatmapset_creators db' =
             filter (\<lambda>r. \<not> (bc_beatmapset_id r = nom_beatmapset_id nomination \<and>
                              bc_game_mode r = nom_game_mode nomination))
                    (beatmapset_creators db) \<and>
           filter (\<lambda>r. bc_beatmapset_id r = nom_beatmapset_id nomination \<and>
                        bc_game_mode r = nom_game_mode nomination)
                  (beatmapset_creators db') = []"
proof -
  have no: "\<not> (isStringArray (em_creators body) \<and> length (creator_names (em_creators body)) > 0)"
    using cr by auto
  let ?c0 = "begin_transaction db"
  have pk0: "distinct (map nom_id (nominations ?c0))"
    and nom0: "find (\<lambda>n. nom_id n = em_nominationId body) (nominations ?c0) = Some nomination"
    and cr0: "beatmapset_creators ?c0 = beatmapset_creators db"
    using pk nom by (simp_all add: begin_transaction_def)
  note keys = reread_nomination_keys[OF pk0 nom0, of osu roles]
  have "nomination_edit_metadata osu roles body db =
      (Inr (reread_nomination (em_nominationId body) nomination
              (metadata_update osu roles body nomination ?c0), []),
       commit ((metadata_update osu roles body nomination ?c0)
         \<lparr>beatmapset_creators :=
            filter (\<lambda>r. \<not> (bc_beatmapset_id r = nom_beatmapset_id nomination \<and>
                             bc_game_mode r = nom_game_mode nomination))
                   (beatmapset_creators db)\<rparr>))"
    using auth no keys
    by (simp add: nomination_edit_metadata_def nom transact_def Let_def metadata_update_creators
          cr0)
  then show ?thesis
    by (simp add: filter_filter_not commit_def)
qed

theorem edit_metadata_creators_always_deleted_witness:
  "(roles_metadata metadata_roles \<or> roles_news metadata_roles) \<and>
   find (\<lambda>n. nom_id n = em_nominationId example_metadata_body) (nominations example_db) =
     Some example_nomination \<and>
   distinct (map nom_id (nominations example_db)) \<and>
   em_creators example_metadata_body = Absent \<and>
   beatmapset_creators example_db =
     [\<lparr>bc_beatmapset_id = 10, bc_creator_id = 9, bc_game_mode = 0\<rparr>] \<and>
   (\<exists>r db'. nomination_edit_metadata osu_none metadata_roles example_metadata_body example_db =
              (Inr r, db') \<and> snd r = [] \<and> beatmapset_creators db' = [])"
proof -
  have h1: "roles_metadata metadata_roles \<or> roles_news metadata_roles"
    by (simp add: metadata_roles_def)
  have h2: "find (\<lambda>n. nom_id n = em_nominationId example_metadata_body) (nominations example_db) =
      Some example_nomination"
    by (simp add: example_metadata_body_def example_db_def empty_db_def example_nomination_def)
  have h3: "distinct (map nom_id (nominations example_db))"
    by (simp add: example_db_def empty_db_def)
  have h4: "em_creators example_metadata_body = Absent \<or>
            em_creators example_metadata_body = NotStringArray \<or>
            em_creators example_metadata_body = StringArray []"
    by (simp add: example_metadata_body_def)
  have ex: "beatmapset_creators example_db =
      [\<lparr>bc_beatmapset_id = 10, bc_creator_id = 9, bc_game_mode = 0\<rparr>]"
    "nom_beatmapset_id example_nomination = 10" "nom_game_mode example_nomination = 0"
    "em_creators example_metadata_body = Absent"
    by (simp_all add: example_db_def empty_db_def example_nomination_def
          example_metadata_body_def)
  from edit_metadata_creators_always_deleted[OF h1 h2 h3 h4, of osu_none] h1 h2 h3 ex
  show ?thesis by auto
qed

section \<open>Properties of the nomination delete\<close>

lemma nomination_delete_success:
  assumes "nomination_delete god userId nid db = (Inr u, db')"
  shows "nominations db' = filter (\<lambda>n. nom_id n \<noteq> nid) (nominations db) \<and>
         nominations_auto_increment db' = nominations_auto_increment db"
  using assms
  by (auto simp: nomination_delete_def transact_def begin_transaction_def commit_def
        delete_statements_def split: if_splits)

text \<open>
  C5: a delete by the god role or by one of the nomination's nominators succeeds. What
  it runs on the connection is, in this order: the begin of one transaction, the delete
  of the assignee rows, of the excluded-beatmap rows, of the nominator rows, of the
  nomination row, and the commit. Each of the four tables keeps exactly its rows of the
  other nominations, so that afterwards no row of the three tables names the deleted
  id and no nomination has it.
\<close>

theorem delete_nomination_cascade:
  assumes "god \<or> find (\<lambda>r. nn_nomination_id r = nominationId \<and> nn_nominator_id r = userId)
                    (nomination_nominators db) \<noteq> None"
  shows "\<exists>db'. nomination_delete god userId nominationId db = (Inr (), db') \<and>
           statements db' = statements db @
             [BeginTransaction, DeleteAssignees nominationId,
              DeleteExcludedBeatmaps nominationId, DeleteNominators nominationId,
              DeleteNominationRow nominationId, Commit] \<and>
           nomination_assignees db' =
             filter (\<lambda>r. na_nomination_id r \<noteq> nominationId) (nomination_assignees db) \<and>
           nomination_excluded_beatmaps db' =
             filter (\<lambda>r. ne_nomination_id r \<noteq> nominationId) (nomination_excluded_beatmaps db) \<and>
           nomination_nominators db' =
             filter (\<lambda>r. nn_nomination_id r \<noteq> nominationId) (nomination_nominators db) \<and>
           nominations db' = filter (\<lambda>n. nom_id n \<noteq> nominationId) (nominations db) \<and>
           filter (\<lambda>r. na_nomination_id r = nominationId) (nomination_assignees db') = [] \<and>
           filter (\<lambda>r. ne_nomination_id r = nominationId) (nomination_excluded_beatmaps db') = [] \<and>
           filter (\<lambda>r. nn_nomination_id r = nominationId) (nomination_nominators db') = [] \<and>
           filter (\<lambda>n. nom_id n = nominationId) (nominations db') = []"
proof -
  have "nomination_delete god userId nominationId db =
      (Inr (), commit (fold exec (delete_statements nominationId) (begin_transaction db)))"
    using assms by (auto simp: nomination_delete_def transact_def)
  then show ?thesis
    by (simp add: delete_statements_def begin_transaction_def commit_def filter_filter_not)
qed

theorem delete_nomination_cascade_witness:
  "find (\<lambda>r. nn_nomination_id r = 1 \<and> nn_nominator_id r = 7)
     (nomination_nominators example_db) \<noteq> None \<and>
   filter (\<lambda>r. na_nomination_id r = 1) (nomination_assignees example_db) \<noteq> [] \<and>
   filter (\<lambda>r. ne_nomination_id r = 1) (nomination_excluded_beatmaps example_db) \<noteq> [] \<and>
   statements example_db = [] \<and>
   (\<exists>db'. nomination_delete False 7 1 example_db = (Inr (), db') \<and>
      statements db' =
        [BeginTransaction, DeleteAssignees 1, DeleteExcludedBeatmaps 1, DeleteNominators 1,
         DeleteNominationRow 1, Commit] \<and>
      nomination_assignees db' = [] \<and> nomination_excluded_beatmaps db' = [] \<and>
      nomination_nominators db' = [] \<and> nominations db' = [])"
proof -
  have h: "False \<or> find (\<lambda>r. nn_nomination_id r = 1 \<and> nn_nominator_id r = 7)
                     (nomination_nominators example_db) \<noteq> None"
    by (simp add: example_db_def empty_db_def)
  have ex: "filter (\<lambda>r. na_nomination_id r = 1) (nomination_assignees example_db) \<noteq> []"
    "filter (\<lambda>r. ne_nomination_id r = 1) (nomination_excluded_beatmaps example_db) \<noteq> []"
    "statements example_db = []"
    "filter (\<lambda>r. na_nomination_id r \<noteq> 1) (nomination_assignees example_db) = []"
    "filter (\<lambda>r. ne_nomination_id r \<noteq> 1) (nomination_excluded_beatmaps example_db) = []"
    "filter (\<lambda>r. nn_nomination_id r \<noteq> 1) (nomination_nominators example_db) = []"
    "filter (\<lambda>n. nom_id n \<noteq> 1) (nominations example_db) = []"
    by (simp_all add: example_db_def empty_db_def example_nomination_def)
  from delete_nomination_cascade[OF h] obtain db' where
    "nomination_delete False 7 1 example_db = (Inr (), db')"
    "statements db' = statements example_db @
       [BeginTransaction, DeleteAssignees 1, DeleteExcludedBeatmaps 1, DeleteNominators 1,
        DeleteNominationRow 1, Commit]"
    "nomination_assignees db' =
       filter (\<lambda>r. na_nomination_id r \<noteq> 1) (nomination_assignees example_db)"
    "nomination_excluded_beatmaps db' =
       filter (\<lambda>r. ne_nomination_id r \<noteq> 1) (nomination_excluded_beatmaps example_db)"
    "nomination_nominators db' =
       filter (\<lambda>r. nn_nomination_id r \<noteq> 1) (nomination_nominators example_db)"
    "nominations db' = filter (\<lambda>n. nom_id n \<noteq> 1) (nominations example_db)"
    by blast
  with h ex show ?thesis by simp
qed

section \<open>Properties of the nomination order\<close>

lemma nomination_submit_success:
  assumes "nomination_submit osu schema userId body db = (Inr r, db')"
  shows "\<exists>bid. nominations db' = nominations db @ [submitted_row schema body bid db] \<and>
           nominations_auto_increment db' = Suc (nominations_auto_increment db) \<and>
           r = find (\<lambda>n. nom_id n = nominations_auto_increment db)
                 (nominations db @ [submitted_row schema body bid db])"
proof -
  obtain b db1 where ob: "osu_beatmapset osu (ns_beatmapsetId body) False db = (b, db1)"
    by (cases "osu_beatmapset osu (ns_beatmapsetId body) False db")
  from osu_beatmapset_frame(1)[of osu "ns_beatmapsetId body" False db]
    osu_beatmapset_frame2[of osu "ns_beatmapsetId body" False db] ob
  have fr: "nominations db1 = nominations db"
    "nominations_auto_increment db1 = nominations_auto_increment db"
    "\<And>r g. nominationCount db1 r g = nominationCount db r g"
    by simp_all
  from assms ob obtain beatmapset where b: "b = Some beatmapset"
    by (cases b) (auto simp: nomination_submit_def split: if_splits)
  from assms ob b fr show ?thesis
    by (intro exI[of _ "bs_id beatmapset"])
       (auto simp: nomination_submit_def transact_def begin_transaction_def commit_def Let_def
             submitted_row_def split: if_splits)
qed

lemma nomination_submit_fresh:
  assumes wf: "\<forall>n\<in>set (nominations db). nom_id n < nominations_auto_increment db"
    and ok: "nomination_submit osu schema userId body db = (Inr r, db')"
  shows "\<exists>new. r = Some new \<and> nominations db' = nominations db @ [new] \<and>
           nom_id new = nominations_auto_increment db \<and>
           nom_round_id new = ns_roundId body \<and> nom_game_mode new = ns_gameMode body \<and>
           nom_order new = int (nominationCount db (ns_roundId body) (ns_gameMode body)) \<and>
           nominations_auto_increment db' = Suc (nominations_auto_increment db) \<and>
           (\<forall>n\<in>set (nominations db'). nom_id n < nominations_auto_increment db')"
proof -
  from nomination_submit_success[OF ok] obtain bid where s:
    "nominations db' = nominations db @ [submitted_row schema body bid db]"
    "nominations_auto_increment db' = Suc (nominations_auto_increment db)"
    "r = find (\<lambda>n. nom_id n = nominations_auto_increment db)
           (nominations db @ [submitted_row schema body bid db])"
    by blast
  have id: "nom_id (submitted_row schema body bid db) = nominations_auto_increment db"
    by (simp add: submitted_row_def)
  from find_fresh_append[OF wf id] s(3) have r: "r = Some (submitted_row schema body bid db)"
    by simp
  have "\<forall>n\<in>set (nominations db'). nom_id n < nominations_auto_increment db'"
    using wf s(1,2) id by (auto simp: less_Suc_eq)
  with r s id show ?thesis
    by (simp add: submitted_row_def)
qed

lemma nominationCount_append:
  "nominations db' = nominations db @ [new] \<Longrightarrow> nom_round_id new = r \<Longrightarrow> nom_game_mode new = g \<Longrightarrow>
   nominationCount db' r g = Suc (nominationCount db r g)"
  by (simp add: nominationCount_def)

text \<open>
  C2 (amended): every successful submission gives the new nomination the count of the
  nominations of its round and game mode as \<open>order\<close>. When two submissions to the same
  round and game mode follow each other, one of the two nominations is then deleted
  and a third is submitted, the second order is the first plus one and the third order
  equals the second: the orders do not decrease, and they are not strictly increasing.
  The nomination ids are taken to lie below the table's auto-increment value.
\<close>

theorem nomination_order_scenario:
  assumes wf: "\<forall>n\<in>set (nominations db). nom_id n < nominations_auto_increment db"
    and s1: "nomination_submit osu schema u1 b1 db = (Inr r1, db1)"
    and s2: "nomination_submit osu schema u2 b2 db1 = (Inr r2, db2)"
    and del: "nomination_delete god ud nd db2 = (Inr (), db3)"
    and nd: "Some nd = map_option nom_id r1 \<or> Some nd = map_option nom_id r2"
    and s3: "nomination_submit osu schema u3 b3 db3 = (Inr r3, db4)"
    and same2: "ns_roundId b2 = ns_roundId b1" "ns_gameMode b2 = ns_gameMode b1"
    and same3: "ns_roundId b3 = ns_roundId b1" "ns_gameMode b3 = ns_gameMode b1"
  shows "\<exists>n1 n2 n3. r1 = Some n1 \<and> r2 = Some n2 \<and> r3 = Some n3 \<and>
           nom_order n1 = int (nominationCount db (ns_roundId b1) (ns_gameMode b1)) \<and>
           nom_order n2 = int (nominationCount db1 (ns_roundId b1) (ns_gameMode b1)) \<and>
           nom_order n3 = int (nominationCount db3 (ns_roundId b1) (ns_gameMode b1)) \<and>
           nom_order n2 = nom_order n1 + 1 \<and>
           nom_order n3 = nom_order n2"
proof -
  let ?R = "ns_roundId b1" and ?G = "ns_gameMode b1"
  let ?a = "nominations_auto_increment db"
  from nomination_submit_fresh[OF wf s1] obtain n1 where n1:
    "r1 = Some n1" "nominations db1 = nominations db @ [n1]" "nom_id n1 = ?a"
    "nom_round_id n1 = ?R" "nom_game_mode n1 = ?G"
    "nom_order n1 = int (nominationCount db ?R ?G)"
    "nominations_auto_increment db1 = Suc ?a"
    and wf1: "\<forall>n\<in>set (nominations db1). nom_id n < nominations_auto_increment db1"
    by blast
  from nomination_submit_fresh[OF wf1 s2] same2 obtain n2 where n2:
    "r2 = Some n2" "nominations db2 = nominations db1 @ [n2]" "nom_id n2 = Suc ?a"
    "nom_round_id n2 = ?R" "nom_game_mode n2 = ?G"
    "nom_order n2 = int (nominationCount db1 ?R ?G)"
    "nominations_auto_increment db2 = Suc (Suc ?a)"
    and wf2: "\<forall>n\<in>set (nominations db2). nom_id n < nominations_auto_increment db2"
    using n1(7) by auto
  have c1: "nominationCount db1 ?R ?G = Suc (nominationCount db ?R ?G)"
    using nominationCount_append[OF n1(2) n1(4) n1(5)] .
  from nomination_delete_success[OF del]
  have d: "nominations db3 = filter (\<lambda>n. nom_id n \<noteq> nd) (nominations db2)"
    "nominations_auto_increment db3 = nominations_auto_increment db2"
    by simp_all
  have wf3: "\<forall>n\<in>set (nominations db3). nom_id n < nominations_auto_increment db3"
    using wf2 d by auto
  from nd n1(1,3) n2(1,3) have nd': "nd = ?a \<or> nd = Suc ?a" by auto
  then have old: "filter (\<lambda>n. nom_id n \<noteq> nd) (nominations db) = nominations db"
    using filter_ids_fresh[OF wf, of nd] by auto
  have c3: "nominationCount db3 ?R ?G = Suc (nominationCount db ?R ?G)"
    using nd' old n1(2,3,4,5) n2(2,3,4,5) d(1)
    by (auto simp: nominationCount_def)
  from nomination_submit_fresh[OF wf3 s3] same3 obtain n3 where n3:
    "r3 = Some n3" "nom_order n3 = int (nominationCount db3 ?R ?G)"
    by auto
  show ?thesis
    using n1(1,6) n2(1,6) n3 c1 c3 by simp
qed

lemmas scenario_defs =
  scenario_db1_def scenario_db2_def scenario_db3_def submitted_order_def nomination_submit_def
  isGameMode_def submit_body_def osu_beatmapset_def osu_all_def empty_db_def transact_def
  begin_transaction_def commit_def Let_def
  nominationCount_def nomination_delete_def delete_statements_def example_schema_def

text \<open>
  From the empty database the three submissions of the scenario receive the orders
  0, 1 and 1: the third is not above the second.
\<close>

theorem nomination_order_not_strictly_increasing:
  "submitted_order (nomination_submit osu_all example_schema 7 (submit_body 11) empty_db) = Some 0 \<and>
   submitted_order (nomination_submit osu_all example_schema 7 (submit_body 12) scenario_db1) =
     Some 1 \<and>
   fst (nomination_delete False 7 1 scenario_db2) = Inr () \<and>
   submitted_order (nomination_submit osu_all example_schema 7 (submit_body 13) scenario_db3) =
     Some 1"
  by (simp add: scenario_defs)

theorem nomination_order_scenario_witness:
  "list_all (\<lambda>n. nom_id n < nominations_auto_increment empty_db) (nominations empty_db) \<and>
   (\<exists>n1 n2 n3.
      fst (nomination_submit osu_all example_schema 7 (submit_body 11) empty_db) = Inr (Some n1) \<and>
      fst (nomination_submit osu_all example_schema 7 (submit_body 12) scenario_db1) =
        Inr (Some n2) \<and>
      fst (nomination_delete False 7 1 scenario_db2) = Inr () \<and> nom_id n1 = 1 \<and>
      fst (nomination_submit osu_all example_schema 7 (submit_body 13) scenario_db3) =
        Inr (Some n3) \<and>
      nom_order n2 = nom_order n1 + 1 \<and> nom_order n3 = nom_order n2)"
proof -
  have wf: "\<forall>n\<in>set (nominations empty_db). nom_id n < nominations_auto_increment empty_db"
    by (simp add: empty_db_def)
  obtain r1 where f1:
    "fst (nomination_submit osu_all example_schema 7 (submit_body 11) empty_db) = Inr r1"
    "map_option nom_id r1 = Some 1"
    by (simp add: scenario_defs)
  obtain r2 where f2:
    "fst (nomination_submit osu_all example_schema 7 (submit_body 12) scenario_db1) = Inr r2"
    by (simp add: scenario_defs)
  have f3: "fst (nomination_delete False 7 1 scenario_db2) = Inr ()"
    by (simp add: scenario_defs)
  obtain r3 where f4:
    "fst (nomination_submit osu_all example_schema 7 (submit_body 13) scenario_db3) = Inr r3"
    by (simp add: scenario_defs)
  have s1: "nomination_submit osu_all example_schema 7 (submit_body 11) empty_db =
      (Inr r1, scenario_db1)"
    using f1 by (simp add: scenario_db1_def prod_eq_iff)
  have s2: "nomination_submit osu_all example_schema 7 (submit_body 12) scenario_db1 =
      (Inr r2, scenario_db2)"
    using f2 by (simp add: scenario_db2_def prod_eq_iff)
  have del: "nomination_delete False 7 1 scenario_db2 = (Inr (), scenario_db3)"
    using f3 by (simp add: scenario_db3_def prod_eq_iff)
  have s3: "nomination_submit osu_all example_schema 7 (submit_body 13) scenario_db3 =
      (Inr r3, snd (nomination_submit osu_all example_schema 7 (submit_body 13) scenario_db3))"
    using f4 by (simp add: prod_eq_iff)
  have nd: "Some 1 = map_option nom_id r1 \<or> Some 1 = map_option nom_id r2"
    using f1(2) by auto
  have same: "ns_roundId (submit_body 12) = ns_roundId (submit_body 11)"
    "ns_gameMode (submit_body 12) = ns_gameMode (submit_body 11)"
    "ns_roundId (submit_body 13) = ns_roundId (submit_body 11)"
    "ns_gameMode (submit_body 13) = ns_gameMode (submit_body 11)"
    by (simp_all add: submit_body_def)
  from nomination_order_scenario[OF wf s1 s2 del nd s3 same] f1 f2 f3 f4 wf
  show ?thesis by (auto simp: list_all_iff)
qed

section \<open>Properties of the rounds\<close>

lemma insert_round_game_modes_frame:
  "round_game_modes (insert_round_game_modes schema dvt rid gms c) =
     round_game_modes c @ map (seeded_round_game_mode schema dvt rid) gms \<and>
   rounds (insert_round_game_modes schema dvt rid gms c) = rounds c \<and>
   nominations (insert_round_game_modes schema dvt rid gms c) = nominations c"
  by (induction gms arbitrary: c) (simp_all add: seeded_round_game_mode_def)

lemma add_round_result:
  assumes "isNewsAuthor"
  shows "add_round isNewsAuthor schema dvt db =
     (Inr (rounds_auto_increment db),
      commit
        (insert_round_game_modes schema dvt (rounds_auto_increment db) [0, 1, 2, 3]
           ((begin_transaction db)
              \<lparr>rounds := rounds db @ [unnamed_round schema (rounds_auto_increment db)],
               rounds_auto_increment := Suc (rounds_auto_increment db)\<rparr>)))"
  using assms
  by (simp add: add_round_def transact_def Let_def unnamed_round_def begin_transaction_def)

lemma rounds_with_counts_filter:
  "filter (\<lambda>(r, c). P r) (rounds_with_counts db) =
     map (\<lambda>r. (r, length (filter (\<lambda>n. nom_round_id n = round_id r) (nominations db))))
         (sort_key round_id (filter P (rounds db)))"
  by (simp add: rounds_with_counts_def filter_map o_def filter_sort)

text \<open>
  C8: \<open>/add-round\<close> by a news author seeds exactly one round-game-mode row for each of
  the game modes 0 to 3, with the configured default voting threshold or 0 when there
  is none, and \<open>/rounds\<close> right after it lists the new round once, among the incomplete
  rounds, with nomination count 0. The schema's default for \<open>done\<close> is taken to be
  false, and the ids in the tables to lie below the rounds' auto-increment value.
\<close>

theorem add_round_seeds_and_lists:
  assumes news: "isNewsAuthor"
    and nd: "\<not> round_done (default_round schema)"
    and fresh_r: "\<forall>r\<in>set (rounds db). round_id r < rounds_auto_increment db"
    and fresh_n: "\<forall>n\<in>set (nominations db). nom_round_id n < rounds_auto_increment db"
    and fresh_g: "\<forall>g\<in>set (round_game_modes db). rgm_round_id g < rounds_auto_increment db"
  shows "\<exists>db'. add_round isNewsAuthor schema dvt db = (Inr (rounds_auto_increment db), db') \<and>
     filter (\<lambda>g. rgm_round_id g = rounds_auto_increment db) (round_game_modes db') =
       map (\<lambda>gameMode.
              (default_round_game_mode schema)
                \<lparr>rgm_game_mode := gameMode,
                 rgm_round_id := rounds_auto_increment db,
                 rgm_voting_threshold := (case dvt gameMode of None \<Rightarrow> 0 | Some t \<Rightarrow> t)\<rparr>)
           [0, 1, 2, 3] \<and>
     filter (\<lambda>(r, c). round_id r = rounds_auto_increment db) (incomplete_rounds (get_rounds db')) =
       [((default_round schema)
           \<lparr>round_id := rounds_auto_increment db, round_name := ''Unnamed round''\<rparr>, 0)] \<and>
     filter (\<lambda>(r, c). round_id r = rounds_auto_increment db) (complete_rounds (get_rounds db')) = []"
proof -
  let ?rid = "rounds_auto_increment db"
  let ?new = "unnamed_round schema ?rid"
  let ?db' = "insert_round_game_modes schema dvt ?rid [0, 1, 2, 3]
        (db\<lparr>rounds := rounds db @ [?new], rounds_auto_increment := Suc ?rid\<rparr>)"
  note frame = insert_round_game_modes_frame[of schema dvt ?rid "[0, 1, 2, 3]"
      "db\<lparr>rounds := rounds db @ [?new], rounds_auto_increment := Suc ?rid\<rparr>"]
  have new: "round_id ?new = ?rid" "\<not> round_done ?new"
    using nd by (simp_all add: unnamed_round_def)
  have rgm: "filter (\<lambda>g. rgm_round_id g = ?rid) (round_game_modes ?db') =
      map (seeded_round_game_mode schema dvt ?rid) [0, 1, 2, 3]"
  proof -
    have "filter (\<lambda>g. rgm_round_id g = ?rid) (round_game_modes db) = []"
      using fresh_g by (intro filter_none) auto
    then show ?thesis
      using frame by (simp add: seeded_round_game_mode_def)
  qed
  have count: "length (filter (\<lambda>n. nom_round_id n = ?rid) (nominations ?db')) = 0"
  proof -
    have "filter (\<lambda>n. nom_round_id n = ?rid) (nominations db) = []"
      using fresh_n by (intro filter_none) auto
    then show ?thesis using frame by simp
  qed
  have inc: "filter (\<lambda>r. \<not> round_done r \<and> round_id r = ?rid) (rounds ?db') = [?new]"
  proof -
    have "filter (\<lambda>r. \<not> round_done r \<and> round_id r = ?rid) (rounds db) = []"
      using fresh_r by (intro filter_none) auto
    then show ?thesis using frame new by simp
  qed
  have com: "filter (\<lambda>r. round_done r \<and> round_id r = ?rid) (rounds ?db') = []"
  proof -
    have "filter (\<lambda>r. round_done r \<and> round_id r = ?rid) (rounds db) = []"
      using fresh_r by (intro filter_none) auto
    then show ?thesis using frame new by simp
  qed
  have i1: "filter (\<lambda>(r, c). round_id r = ?rid) (incomplete_rounds (get_rounds ?db')) =
      filter (\<lambda>(r, c). \<not> round_done r \<and> round_id r = ?rid) (rounds_with_counts ?db')"
    by (simp add: get_rounds_def case_prod_unfold conj_commute)
  have c1: "filter (\<lambda>(r, c). round_id r = ?rid) (complete_rounds (get_rounds ?db')) =
      rev (filter (\<lambda>(r, c). round_done r \<and> round_id r = ?rid) (rounds_with_counts ?db'))"
    by (simp add: get_rounds_def case_prod_unfold conj_commute rev_filter[symmetric])
  have i2: "filter (\<lambda>(r, c). round_id r = ?rid) (incomplete_rounds (get_rounds ?db')) = [(?new, 0)]"
    unfolding i1 rounds_with_counts_filter inc using count new by simp
  have c2: "filter (\<lambda>(r, c). round_id r = ?rid) (complete_rounds (get_rounds ?db')) = []"
    unfolding c1 rounds_with_counts_filter com by simp
  let ?res = "commit (insert_round_game_modes schema dvt ?rid [0, 1, 2, 3]
        ((begin_transaction db)\<lparr>rounds := rounds db @ [?new], rounds_auto_increment := Suc ?rid\<rparr>))"
  note frame' = insert_round_game_modes_frame[of schema dvt ?rid "[0, 1, 2, 3]"
      "(begin_transaction db)\<lparr>rounds := rounds db @ [?new], rounds_auto_increment := Suc ?rid\<rparr>"]
  have same: "round_game_modes ?res = round_game_modes ?db'" "rounds ?res = rounds ?db'"
    "nominations ?res = nominations ?db'"
    using frame frame' by (simp_all add: commit_def begin_transaction_def)
  have lists: "get_rounds ?res = get_rounds ?db'"
    by (simp only: get_rounds_def rounds_with_counts_def same)
  have r: "add_round isNewsAuthor schema dvt db = (Inr ?rid, ?res)"
    by (rule add_round_result[OF news])
  have g: "filter (\<lambda>g. rgm_round_id g = ?rid) (round_game_modes ?res) =
      map (seeded_round_game_mode schema dvt ?rid) [0, 1, 2, 3]"
    unfolding same by (rule rgm)
  have i: "filter (\<lambda>(r, c). round_id r = ?rid) (incomplete_rounds (get_rounds ?res)) =
      [(?new, 0)]"
    unfolding lists by (rule i2)
  have c: "filter (\<lambda>(r, c). round_id r = ?rid) (complete_rounds (get_rounds ?res)) = []"
    unfolding lists by (rule c2)
  show ?thesis
    apply (rule exI[of _ ?res])
    using r g i c
    apply (simp only: seeded_round_game_mode_def[abs_def] unnamed_round_def simp_thms)
    done
qed

theorem add_round_seeds_and_lists_witness:
  "\<not> round_done (default_round example_schema) \<and>
   list_all (\<lambda>r. round_id r < rounds_auto_increment example_rounds_db)
     (rounds example_rounds_db) \<and>
   list_all (\<lambda>n. nom_round_id n < rounds_auto_increment example_rounds_db)
     (nominations example_rounds_db) \<and>
   list_all (\<lambda>g. rgm_round_id g < rounds_auto_increment example_rounds_db)
     (round_game_modes example_rounds_db) \<and>
   (\<exists>db'. add_round True example_schema example_thresholds example_rounds_db = (Inr 2, db') \<and>
      map (\<lambda>g. (rgm_game_mode g, rgm_voting_threshold g))
          (filter (\<lambda>g. rgm_round_id g = 2) (round_game_modes db')) =
        [(0, 5), (1, 0), (2, 0), (3, 0)] \<and>
      filter (\<lambda>(r, c). round_id r = 2) (incomplete_rounds (get_rounds db')) =
        [(\<lparr>round_id = 2, round_name = ''Unnamed round'', round_done = False\<rparr>, 0)] \<and>
      filter (\<lambda>(r, c). round_id r = 2) (complete_rounds (get_rounds db')) = [])"
proof -
  have h1: "True" by simp
  have h2: "\<not> round_done (default_round example_schema)"
    by (simp add: example_schema_def)
  have ai: "rounds_auto_increment example_rounds_db = 2"
    by (simp add: example_rounds_db_def)
  have h3: "\<forall>r\<in>set (rounds example_rounds_db). round_id r < rounds_auto_increment example_rounds_db"
    by (simp add: example_rounds_db_def)
  have h4: "\<forall>n\<in>set (nominations example_rounds_db).
      nom_round_id n < rounds_auto_increment example_rounds_db"
    by (simp add: example_rounds_db_def example_db_def empty_db_def example_nomination_def)
  have h5: "\<forall>g\<in>set (round_game_modes example_rounds_db).
      rgm_round_id g < rounds_auto_increment example_rounds_db"
    by (simp add: example_rounds_db_def)
  have sch: "default_round example_schema = \<lparr>round_id = 0, round_name = [], round_done = False\<rparr>"
    by (simp add: example_schema_def)
  from add_round_seeds_and_lists[OF h1 h2 h3 h4 h5, of example_thresholds]
  obtain db' where db':
    "add_round True example_schema example_thresholds example_rounds_db = (Inr 2, db')"
    "filter (\<lambda>g. rgm_round_id g = 2) (round_game_modes db') =
       map (\<lambda>gameMode.
              (default_round_game_mode example_schema)
                \<lparr>rgm_game_mode := gameMode,
                 rgm_round_id := 2,
                 rgm_voting_threshold :=
                   (case example_thresholds gameMode of None \<Rightarrow> 0 | Some t \<Rightarrow> t)\<rparr>)
           [0, 1, 2, 3]"
    "filter (\<lambda>(r, c). round_id r = 2) (incomplete_rounds (get_rounds db')) =
       [((default_round example_schema)\<lparr>round_id := 2, round_name := ''Unnamed round''\<rparr>, 0)]"
    "filter (\<lambda>(r, c). round_id r = 2) (complete_rounds (get_rounds db')) = []"
    unfolding ai by blast
  have "map (\<lambda>g. (rgm_game_mode g, rgm_voting_threshold g))
          (filter (\<lambda>g. rgm_round_id g = 2) (round_game_modes db')) =
        [(0, 5), (1, 0), (2, 0), (3, 0)]"
    unfolding db'(2) by (simp add: example_thresholds_def)
  with db'(1,3,4) h2 h3 h4 h5 show ?thesis
    by (simp add: sch list_all_iff)
qed

section \<open>Properties of the reviews\<close>

lemma submission_log_not_reviewUpdated:
  "list_ex is_reviewUpdated (submission_log userId body beatmapset c) = False"
  by (simp add: submission_log_def split: option.splits)

lemma deleteExistingSubmission_frame:
  "reviews (deleteExistingSubmission userId body beatmapset c) = reviews c"
  "logs (deleteExistingSubmission userId body beatmapset c) =
     logs c @ submission_log userId body beatmapset c"
  by (simp_all add: deleteExistingSubmission_def submission_log_def split: option.splits)

lemma update_review_eval:
  assumes "find (\<lambda>r. rev_id r = rev_id e) (reviews c) = Some e0"
  shows "\<exists>c'. update_review userId now body beatmapset ac e c =
                (Inr (updated_review now body e0, ac), c') \<and>
           find (\<lambda>r. rev_id r = rev_id e) (reviews c') = Some (updated_review now body e0) \<and>
           logs c' = logs c @
             (if rev_reason e \<noteq> rb_reason body \<or> rev_score e \<noteq> rb_score body
              then [reviewUpdated (bs_id beatmapset) e (updated_review now body e0) userId]
              else []) @
             submission_log userId body beatmapset c"
proof -
  have upd: "find (\<lambda>r. rev_id r = rev_id e)
      (map (\<lambda>r. if rev_id r = rev_id e
                then r\<lparr>rev_reason := rb_reason body, rev_reviewed_at := now,
                       rev_score := rb_score body\<rparr>
                else r) (reviews c)) =
      Some (e0\<lparr>rev_reason := rb_reason body, rev_reviewed_at := now,
                rev_score := rb_score body\<rparr>)"
    by (subst find_map_update) (simp_all add: assms)
  show ?thesis
    unfolding updated_review_def
    using upd
    by (simp add: update_review_def Let_def deleteExistingSubmission_frame submission_log_def)
qed

lemma review_validated:
  assumes gm: "isGameMode (rb_gameMode body)"
    and range: "- 4 \<le> rb_score body" "rb_score body \<le> 3"
    and cap: "rb_score body \<in> {- 4, 0} \<longrightarrow> hasRole captain (Some (rb_gameMode body))"
    and ex: "find (\<lambda>r. rev_beatmapset_id r = rb_beatmapsetId body \<and> rev_reviewer_id r = userId \<and>
                       rev_game_mode r = rb_gameMode body) (reviews db) = Some existing"
    and dep: "rb_score body = - 2 \<or> rb_score body = 2 \<longrightarrow> rev_score existing = rb_score body"
    and osu: "osu_beatmapset osu (rb_beatmapsetId body) True db = (Some beatmapset, db1)"
    and ranked: "bs_ranked_status beatmapset \<le> RankedStatus_pending"
    and mode: "rb_gameMode body \<in> bs_game_modes beatmapset"
  shows "\<exists>ac. review osu hasRole userId userRoles now body db =
           transact (update_review userId now body beatmapset ac existing) db1"
proof -
  have a: "\<not> (rb_score body < - 4 \<or> rb_score body > 3)"
    using range by auto
  have b: "\<not> (rb_score body \<in> {- 4, 0} \<and> \<not> hasRole captain (Some (rb_gameMode body)))"
    using cap by blast
  have c: "\<not> ((rb_score body = - 2 \<or> rb_score body = 2) \<and>
              Some (rb_score body) \<noteq> map_option rev_score (Some existing))"
    using dep by auto
  have d: "\<not> bs_ranked_status beatmapset > RankedStatus_pending"
    using ranked by simp
  have "review osu hasRole userId userRoles now body db =
      transact (update_review userId now body beatmapset
        (case find (\<lambda>role. ur_game_mode role = rb_gameMode body \<and> ur_role_id role = captain)
                userRoles of
           None \<Rightarrow> None | Some role \<Rightarrow> Some (\<not> ur_alumni role)) existing) db1"
    unfolding review_def Let_def ex
    by (simp only: gm a b c d mode osu not_True_eq_False not_False_eq_True if_False if_True
          prod.case option.case)
  then show ?thesis by blast
qed

lemma review_update_path:
  assumes gm: "isGameMode (rb_gameMode body)"
    and range: "- 4 \<le> rb_score body" "rb_score body \<le> 3"
    and cap: "rb_score body \<in> {- 4, 0} \<longrightarrow> hasRole captain (Some (rb_gameMode body))"
    and ex: "find (\<lambda>r. rev_beatmapset_id r = rb_beatmapsetId body \<and> rev_reviewer_id r = userId \<and>
                       rev_game_mode r = rb_gameMode body) (reviews db) = Some existing"
    and dep: "rb_score body = - 2 \<or> rb_score body = 2 \<longrightarrow> rev_score existing = rb_score body"
    and osu: "osu_beatmapset osu (rb_beatmapsetId body) True db = (Some beatmapset, db1)"
    and ranked: "bs_ranked_status beatmapset \<le> RankedStatus_pending"
    and mode: "rb_gameMode body \<in> bs_game_modes beatmapset"
  shows "\<exists>new ac db' added.
           review osu hasRole userId userRoles now body db = (Inr (new, ac), db') \<and>
           find (\<lambda>r. rev_id r = rev_id existing) (reviews db') = Some new \<and>
           rev_reviewed_at new = now \<and> rev_score new = rb_score body \<and>
           rev_reason new = rb_reason body \<and>
           logs db' = logs db @ added \<and>
           (list_ex is_reviewUpdated added \<longleftrightarrow>
              rev_reason existing \<noteq> rb_reason body \<or> rev_score existing \<noteq> rb_score body)"
proof -
  from osu_beatmapset_reviews[of osu "rb_beatmapsetId body" True db] osu
  have fr: "reviews db1 = reviews db" "logs db1 = logs db" by simp_all
  let ?b1 = "begin_transaction db1"
  from find_same_key[OF ex, of rev_id] fr obtain e0 where
    e0: "find (\<lambda>r. rev_id r = rev_id existing) (reviews ?b1) = Some e0"
    by (auto simp: begin_transaction_def)
  have frb: "logs ?b1 = logs db"
    using fr by (simp add: begin_transaction_def)
  from review_validated[of body hasRole userId db existing osu beatmapset db1 userRoles now]
    assms obtain ac where
    rv: "review osu hasRole userId userRoles now body db =
           transact (update_review userId now body beatmapset ac existing) db1"
    by blast
  from update_review_eval[OF e0, of userId now body beatmapset ac] obtain c' where
    c': "update_review userId now body beatmapset ac existing ?b1 =
           (Inr (updated_review now body e0, ac), c')"
      "find (\<lambda>r. rev_id r = rev_id existing) (reviews c') = Some (updated_review now body e0)"
      "logs c' = logs ?b1 @
             (if rev_reason existing \<noteq> rb_reason body \<or> rev_score existing \<noteq> rb_score body
              then [reviewUpdated (bs_id beatmapset) existing (updated_review now body e0) userId]
              else []) @
             submission_log userId body beatmapset ?b1"
    by blast
  let ?added = "(if rev_reason existing \<noteq> rb_reason body \<or> rev_score existing \<noteq> rb_score body
              then [reviewUpdated (bs_id beatmapset) existing (updated_review now body e0) userId]
              else []) @
             submission_log userId body beatmapset ?b1"
  have res: "review osu hasRole userId userRoles now body db =
      (Inr (updated_review now body e0, ac), commit c')"
    by (simp add: rv transact_def c'(1))
  have cm: "reviews (commit c') = reviews c'" "logs (commit c') = logs c'"
    by (simp_all add: commit_def)
  have ex_iff: "list_ex is_reviewUpdated ?added \<longleftrightarrow>
      rev_reason existing \<noteq> rb_reason body \<or> rev_score existing \<noteq> rb_score body"
    by (simp add: submission_log_not_reviewUpdated)
  have fields: "rev_reviewed_at (updated_review now body e0) = now"
    "rev_score (updated_review now body e0) = rb_score body"
    "rev_reason (updated_review now body e0) = rb_reason body"
    by (simp_all add: updated_review_def)
  show ?thesis
    apply (rule exI[of _ "updated_review now body e0"])
    apply (rule exI[of _ ac])
    apply (rule exI[of _ "commit c'"])
    apply (rule exI[of _ ?added])
    using res c'(2) c'(3) frb cm ex_iff fields
    apply simp
    done
qed

lemma example_review_facts:
  "isGameMode (rb_gameMode (review_body reason score))"
  "find (\<lambda>r. rev_beatmapset_id r = rb_beatmapsetId (review_body reason score) \<and>
             rev_reviewer_id r = 7 \<and>
             rev_game_mode r = rb_gameMode (review_body reason score))
     (reviews example_review_db) = Some example_review"
  "osu_beatmapset osu_all (rb_beatmapsetId (review_body reason score)) True example_review_db =
     (Some \<lparr>bs_id = 10, bs_ranked_status = 0, bs_game_modes = {0, 1, 2, 3}\<rparr>,
      snd (osu_beatmapset osu_all 10 True example_review_db))"
  "rev_score example_review = 2" "rev_reason example_review = ''good''"
  "rev_reviewed_at example_review = 100" "rev_id example_review = 1"
  "logs example_review_db = []"
  by (simp_all add: isGameMode_def review_body_def example_review_db_def empty_db_def
        example_review_def osu_beatmapset_def osu_all_def)

text \<open>
  C3: for a request with a valid game mode and a score of -2 or 2, the review is
  rejected with the validation error \<open>Invalid score\<close> and the database is left as it
  was, unless the reviewer's stored review of that beatmapset and game mode has exactly
  that score; in that case the request passes, and once the beatmapset resolves, is not
  beyond pending and has the game mode, the review is accepted and stored.
\<close>

theorem deprecated_score_policy:
  assumes gm: "isGameMode (rb_gameMode body)"
    and sc: "rb_score body = - 2 \<or> rb_score body = 2"
  shows "(map_option rev_score
            (find (\<lambda>r. rev_beatmapset_id r = rb_beatmapsetId body \<and> rev_reviewer_id r = userId \<and>
                        rev_game_mode r = rb_gameMode body) (reviews db)) \<noteq> Some (rb_score body) \<longrightarrow>
          review osu hasRole userId userRoles now body db =
            (Inl (ValidationError ''Invalid score''), db)) \<and>
         (\<forall>existing beatmapset db1.
            find (\<lambda>r. rev_beatmapset_id r = rb_beatmapsetId body \<and> rev_reviewer_id r = userId \<and>
                       rev_game_mode r = rb_gameMode body) (reviews db) = Some existing \<and>
            rev_score existing = rb_score body \<and>
            osu_beatmapset osu (rb_beatmapsetId body) True db = (Some beatmapset, db1) \<and>
            bs_ranked_status beatmapset \<le> RankedStatus_pending \<and>
            rb_gameMode body \<in> bs_game_modes beatmapset \<longrightarrow>
            (\<exists>new ac db'.
               review osu hasRole userId userRoles now body db = (Inr (new, ac), db') \<and>
               find (\<lambda>r. rev_id r = rev_id existing) (reviews db') = Some new \<and>
               rev_score new = rb_score body \<and> rev_reason new = rb_reason body))"
proof (intro conjI impI allI)
  assume ne: "map_option rev_score
            (find (\<lambda>r. rev_beatmapset_id r = rb_beatmapsetId body \<and> rev_reviewer_id r = userId \<and>
                        rev_game_mode r = rb_gameMode body) (reviews db)) \<noteq> Some (rb_score body)"
  have a: "\<not> (rb_score body < - 4 \<or> rb_score body > 3)" "\<not> rb_score body \<in> {- 4, 0}"
    using sc by auto
  have c: "(rb_score body = - 2 \<or> rb_score body = 2) \<and>
           Some (rb_score body) \<noteq> map_option rev_score
             (find (\<lambda>r. rev_beatmapset_id r = rb_beatmapsetId body \<and> rev_reviewer_id r = userId \<and>
                        rev_game_mode r = rb_gameMode body) (reviews db))"
    using sc not_sym[OF ne] by (rule conjI)
  show "review osu hasRole userId userRoles now body db =
      (Inl (ValidationError ''Invalid score''), db)"
    unfolding review_def Let_def
    by (simp only: gm a c not_True_eq_False not_False_eq_True if_False if_True simp_thms)
next
  fix existing beatmapset db1
  assume h: "find (\<lambda>r. rev_beatmapset_id r = rb_beatmapsetId body \<and> rev_reviewer_id r = userId \<and>
                       rev_game_mode r = rb_gameMode body) (reviews db) = Some existing \<and>
            rev_score existing = rb_score body \<and>
            osu_beatmapset osu (rb_beatmapsetId body) True db = (Some beatmapset, db1) \<and>
            bs_ranked_status beatmapset \<le> RankedStatus_pending \<and>
            rb_gameMode body \<in> bs_game_modes beatmapset"
  have range: "- 4 \<le> rb_score body" "rb_score body \<le> 3"
    and cap: "rb_score body \<in> {- 4, 0} \<longrightarrow> hasRole captain (Some (rb_gameMode body))"
    using sc by auto
  from review_update_path[of body hasRole userId db existing osu beatmapset db1 userRoles now]
    gm range cap h
  show "\<exists>new ac db'.
          review osu hasRole userId userRoles now body db = (Inr (new, ac), db') \<and>
          find (\<lambda>r. rev_id r = rev_id existing) (reviews db') = Some new \<and>
          rev_score new = rb_score body \<and> rev_reason new = rb_reason body"
    by blast
qed

theorem deprecated_score_policy_witness:
  "review osu_all no_role 7 [] 200 (review_body ''bad'' (- 2)) example_review_db =
     (Inl (ValidationError ''Invalid score''), example_review_db) \<and>
   (\<exists>new ac db'.
      review osu_all no_role 7 [] 200 (review_body ''better'' 2) example_review_db =
        (Inr (new, ac), db') \<and>
      find (\<lambda>r. rev_id r = 1) (reviews db') = Some new \<and>
      rev_score new = 2 \<and> rev_reason new = ''better'')"
proof -
  let ?bs = "\<lparr>bs_id = 10, bs_ranked_status = 0, bs_game_modes = {0, 1, 2, 3}\<rparr>"
  let ?db1 = "snd (osu_beatmapset osu_all 10 True example_review_db)"
  have b: "rb_score (review_body reason score) = score"
    "rb_reason (review_body reason score) = reason" for reason score
    by (simp_all add: review_body_def)
  have sc1: "rb_score (review_body ''bad'' (- 2)) = - 2 \<or> rb_score (review_body ''bad'' (- 2)) = 2"
    and sc2: "rb_score (review_body ''better'' 2) = - 2 \<or> rb_score (review_body ''better'' 2) = 2"
    by (simp_all add: b)
  have ne: "map_option rev_score
      (find (\<lambda>r. rev_beatmapset_id r = rb_beatmapsetId (review_body ''bad'' (- 2)) \<and>
                  rev_reviewer_id r = 7 \<and>
                  rev_game_mode r = rb_gameMode (review_body ''bad'' (- 2)))
         (reviews example_review_db)) \<noteq> Some (rb_score (review_body ''bad'' (- 2)))"
    by (simp add: example_review_facts b)
  have rej: "review osu_all no_role 7 [] 200 (review_body ''bad'' (- 2)) example_review_db =
      (Inl (ValidationError ''Invalid score''), example_review_db)"
    using deprecated_score_policy[OF example_review_facts(1) sc1, of 7 example_review_db
        osu_all no_role "[]" 200, THEN conjunct1] ne
    by (rule mp)
  have h: "find (\<lambda>r. rev_beatmapset_id r = rb_beatmapsetId (review_body ''better'' 2) \<and>
                     rev_reviewer_id r = 7 \<and>
                     rev_game_mode r = rb_gameMode (review_body ''better'' 2))
             (reviews example_review_db) = Some example_review \<and>
           rev_score example_review = rb_score (review_body ''better'' 2) \<and>
           osu_beatmapset osu_all (rb_beatmapsetId (review_body ''better'' 2)) True
             example_review_db = (Some ?bs, ?db1) \<and>
           bs_ranked_status ?bs \<le> RankedStatus_pending \<and>
           rb_gameMode (review_body ''better'' 2) \<in> bs_game_modes ?bs"
    by (simp add: example_review_facts b RankedStatus_pending_def) (simp add: review_body_def)
  from deprecated_score_policy[OF example_review_facts(1) sc2, of 7 example_review_db
        osu_all no_role "[]" 200, THEN conjunct2, rule_format, OF h]
  have acc: "\<exists>new ac db'.
      review osu_all no_role 7 [] 200 (review_body ''better'' 2) example_review_db =
        (Inr (new, ac), db') \<and>
      find (\<lambda>r. rev_id r = rev_id example_review) (reviews db') = Some new \<and>
      rev_score new = rb_score (review_body ''better'' 2) \<and>
      rev_reason new = rb_reason (review_body ''better'' 2)" .
  from rej acc show ?thesis by (simp add: example_review_facts b)
qed

text \<open>
  C4: when the reviewer already has a review of the beatmapset and game mode and the
  request passes the checks (score in range, captain for -4 and 0, deprecated score
  only as stored, beatmapset resolved, not beyond pending, with the game mode), the
  request succeeds and stores the new time of review, and the audit records it adds
  hold a \<open>reviewUpdated\<close> record exactly when the reason or the score differs from the
  stored one: none for an identical review.
\<close>

theorem resubmit_review_audit:
  assumes gm: "isGameMode (rb_gameMode body)"
    and range: "- 4 \<le> rb_score body" "rb_score body \<le> 3"
    and cap: "rb_score body \<in> {- 4, 0} \<longrightarrow> hasRole captain (Some (rb_gameMode body))"
    and ex: "find (\<lambda>r. rev_beatmapset_id r = rb_beatmapsetId body \<and> rev_reviewer_id r = userId \<and>
                       rev_game_mode r = rb_gameMode body) (reviews db) = Some existing"
    and dep: "rb_score body = - 2 \<or> rb_score body = 2 \<longrightarrow> rev_score existing = rb_score body"
    and osu: "osu_beatmapset osu (rb_beatmapsetId body) True db = (Some beatmapset, db1)"
    and ranked: "bs_ranked_status beatmapset \<le> RankedStatus_pending"
    and mode: "rb_gameMode body \<in> bs_game_modes beatmapset"
  shows "\<exists>new ac db' added.
           review osu hasRole userId userRoles now body db = (Inr (new, ac), db') \<and>
           find (\<lambda>r. rev_id r = rev_id existing) (reviews db') = Some new \<and>
           rev_reviewed_at new = now \<and> rev_score new = rb_score body \<and>
           rev_reason new = rb_reason body \<and>
           logs db' = logs db @ added \<and>
           (list_ex is_reviewUpdated added \<longleftrightarrow>
              rev_reason existing \<noteq> rb_reason body \<or> rev_score existing \<noteq> rb_score body)"
  using review_update_path[of body hasRole userId db existing osu beatmapset db1 userRoles now]
    assms by blast

theorem resubmit_review_audit_witness:
  "(\<exists>new ac db'.
      review osu_all no_role 7 [] 200 (review_body ''good'' 2) example_review_db =
        (Inr (new, ac), db') \<and>
      find (\<lambda>r. rev_id r = 1) (reviews db') = Some new \<and>
      rev_reviewed_at example_review = 100 \<and> rev_reviewed_at new = 200 \<and>
      rev_score new = 2 \<and> rev_reason new = ''good'' \<and>
      filter is_reviewUpdated (logs db') = []) \<and>
   (\<exists>new ac db'.
      review osu_all no_role 7 [] 200 (review_body ''better'' 2) example_review_db =
        (Inr (new, ac), db') \<and>
      filter is_reviewUpdated (logs db') \<noteq> [])"
proof -
  let ?bs = "\<lparr>bs_id = 10, bs_ranked_status = 0, bs_game_modes = {0, 1, 2, 3}\<rparr>"
  let ?db1 = "snd (osu_beatmapset osu_all 10 True example_review_db)"
  have b: "rb_score (review_body reason 2) = 2" "rb_reason (review_body reason 2) = reason"
    for reason
    by (simp_all add: review_body_def)
  have range: "- 4 \<le> rb_score (review_body reason 2)" "rb_score (review_body reason 2) \<le> 3"
    and cap: "rb_score (review_body reason 2) \<in> {- 4, 0} \<longrightarrow>
              no_role captain (Some (rb_gameMode (review_body reason 2)))"
    and dep: "rb_score (review_body reason 2) = - 2 \<or> rb_score (review_body reason 2) = 2 \<longrightarrow>
              rev_score example_review = rb_score (review_body reason 2)"
    and ranked: "bs_ranked_status ?bs \<le> RankedStatus_pending"
    and mode: "rb_gameMode (review_body reason 2) \<in> bs_game_modes ?bs"
    for reason
    by (simp_all add: b review_body_def example_review_facts RankedStatus_pending_def)
  note t1 = resubmit_review_audit[of "review_body ''good'' 2" no_role 7 example_review_db
      example_review osu_all ?bs ?db1 "[]" 200,
      OF example_review_facts(1) range cap example_review_facts(2)
      dep example_review_facts(3) ranked mode]
  note t2 = resubmit_review_audit[of "review_body ''better'' 2" no_role 7 example_review_db
      example_review osu_all ?bs ?db1 "[]" 200,
      OF example_review_facts(1) range cap example_review_facts(2)
      dep example_review_facts(3) ranked mode]
  from t1 obtain new ac db' added where r:
    "review osu_all no_role 7 [] 200 (review_body ''good'' 2) example_review_db =
       (Inr (new, ac), db')"
    "find (\<lambda>r. rev_id r = rev_id example_review) (reviews db') = Some new"
    "rev_reviewed_at new = 200" "rev_score new = rb_score (review_body ''good'' 2)"
    "rev_reason new = rb_reason (review_body ''good'' 2)"
    "logs db' = logs example_review_db @ added"
    "list_ex is_reviewUpdated added \<longleftrightarrow>
       rev_reason example_review \<noteq> rb_reason (review_body ''good'' 2) \<or>
       rev_score example_review \<noteq> rb_score (review_body ''good'' 2)"
    by blast
  from r(7) have "filter is_reviewUpdated added = []"
    by (simp add: b example_review_facts list_ex_iff filter_empty_conv)
  with r have first: "\<exists>new ac db'.
      review osu_all no_role 7 [] 200 (review_body ''good'' 2) example_review_db =
        (Inr (new, ac), db') \<and>
      find (\<lambda>r. rev_id r = 1) (reviews db') = Some new \<and>
      rev_reviewed_at example_review = 100 \<and> rev_reviewed_at new = 200 \<and>
      rev_score new = 2 \<and> rev_reason new = ''good'' \<and>
      filter is_reviewUpdated (logs db') = []"
    by (auto simp: b example_review_facts)
  from t2 obtain new2 ac2 db2 added2 where r2:
    "review osu_all no_role 7 [] 200 (review_body ''better'' 2) example_review_db =
       (Inr (new2, ac2), db2)"
    "logs db2 = logs example_review_db @ added2"
    "list_ex is_reviewUpdated added2 \<longleftrightarrow>
       rev_reason example_review \<noteq> rb_reason (review_body ''better'' 2) \<or>
       rev_score example_review \<noteq> rb_score (review_body ''better'' 2)"
    by blast
  from r2(3) have "filter is_reviewUpdated added2 \<noteq> []"
    by (simp add: b example_review_facts list_ex_iff filter_empty_conv)
  with r2 have second: "\<exists>new ac db'.
      review osu_all no_role 7 [] 200 (review_body ''better'' 2) example_review_db =
        (Inr (new, ac), db') \<and>
      filter is_reviewUpdated (logs db') \<noteq> []"
    by (auto simp: example_review_facts)
  from first second show ?thesis by blast
qed

section \<open>Properties of the mapper consent\<close>




















end
